theory Spec2Isabelle
  imports Main
begin

section \<open>JavaScript strings\<close>

text \<open>
  Strings are lists of 8-bit characters, read as code units below 256. The headers the
  generator reads are ASCII; case mapping is modelled for ASCII letters only.
\<close>

definition is_space :: "char \<Rightarrow> bool" where
  \<comment> \<open>\<open>\s\<close> and the characters \<open>trim\<close> strips: TAB, LF, VT, FF, CR, SP, NBSP\<close>
  "is_space c = (c \<in> set [CHR 0x09, CHR 0x0A, CHR 0x0B, CHR 0x0C, CHR 0x0D, CHR 0x20, CHR 0xA0])"

definition is_word :: "char \<Rightarrow> bool" where
  \<comment> \<open>\<open>\w\<close>: \<open>[A-Za-z0-9_]\<close>\<close>
  "is_word c = (let n = (of_char c :: nat) in
     (97 \<le> n \<and> n \<le> 122) \<or> (65 \<le> n \<and> n \<le> 90) \<or> (48 \<le> n \<and> n \<le> 57) \<or> n = 95)"

definition is_line_terminator :: "char \<Rightarrow> bool" where
  "is_line_terminator c = (c = CHR 0x0A \<or> c = CHR 0x0D)"

definition js_trim :: "string \<Rightarrow> string" where
  "js_trim s = rev (dropWhile is_space (rev (dropWhile is_space s)))"

definition js_startsWith :: "string \<Rightarrow> string \<Rightarrow> bool" where
  "js_startsWith s p = (take (length p) s = p)"

definition js_endsWith :: "string \<Rightarrow> string \<Rightarrow> bool" where
  "js_endsWith s p = (length p \<le> length s \<and> drop (length s - length p) s = p)"

fun js_indexOf_from :: "nat \<Rightarrow> string \<Rightarrow> string \<Rightarrow> nat option" where
  \<comment> \<open>position of the first occurrence of \<open>p\<close>, counted from offset \<open>i\<close> of the whole string\<close>
  "js_indexOf_from i [] p = (if p = [] then Some i else None)"
| "js_indexOf_from i (x # xs) p =
     (if js_startsWith (x # xs) p then Some i else js_indexOf_from (Suc i) xs p)"

definition js_indexOf :: "string \<Rightarrow> string \<Rightarrow> nat option" where
  "js_indexOf s p = js_indexOf_from 0 s p"

definition js_includes :: "string \<Rightarrow> string \<Rightarrow> bool" where
  "js_includes s p = (js_indexOf s p \<noteq> None)"

fun js_lastIndexOf_from :: "nat \<Rightarrow> string \<Rightarrow> string \<Rightarrow> nat option" where
  "js_lastIndexOf_from i [] p = (if p = [] then Some i else None)"
| "js_lastIndexOf_from i (x # xs) p =
     (case js_lastIndexOf_from (Suc i) xs p of
        Some j \<Rightarrow> Some j
      | None \<Rightarrow> if js_startsWith (x # xs) p then Some i else None)"

definition js_lastIndexOf :: "string \<Rightarrow> string \<Rightarrow> nat option" where
  "js_lastIndexOf s p = js_lastIndexOf_from 0 s p"

definition js_substring :: "string \<Rightarrow> nat \<Rightarrow> nat \<Rightarrow> string" where
  \<comment> \<open>\<open>s.substring(a, b)\<close>: both ends clamped to the length, swapped when \<open>a > b\<close>\<close>
  "js_substring s a b =
     (let a' = min a (length s); b' = min b (length s)
      in take (max a' b' - min a' b') (drop (min a' b') s))"

definition js_charAt :: "string \<Rightarrow> nat \<Rightarrow> string" where
  "js_charAt s i = (if i < length s then [s ! i] else [])"

definition upper_char :: "char \<Rightarrow> char" where
  "upper_char c = (let n = (of_char c :: nat) in if 97 \<le> n \<and> n \<le> 122 then char_of (n - 32) else c)"

definition lower_char :: "char \<Rightarrow> char" where
  "lower_char c = (let n = (of_char c :: nat) in if 65 \<le> n \<and> n \<le> 90 then char_of (n + 32) else c)"

definition js_toUpperCase :: "string \<Rightarrow> string" where
  "js_toUpperCase s = map upper_char s"

definition js_toLowerCase :: "string \<Rightarrow> string" where
  "js_toLowerCase s = map lower_char s"

fun get_substitution :: "string \<Rightarrow> string \<Rightarrow> string \<Rightarrow> string \<Rightarrow> string" where
  \<comment> \<open>the \<open>$\<close> patterns of a replacement string when the pattern is a string (no captures):
      \<open>$$\<close>, \<open>$&\<close>, \<open>$`\<close> and \<open>$'\<close>\<close>
  "get_substitution matched pre post [] = []"
| "get_substitution matched pre post [c] = [c]"
| "get_substitution matched pre post (c # d # r) =
     (if c = CHR ''$'' \<and> d = CHR ''$'' then CHR ''$'' # get_substitution matched pre post r
      else if c = CHR ''$'' \<and> d = CHR ''&'' then matched @ get_substitution matched pre post r
      else if c = CHR ''$'' \<and> d = CHR 0x60 then pre @ get_substitution matched pre post r
      else if c = CHR ''$'' \<and> d = CHR 0x27 then post @ get_substitution matched pre post r
      else c # get_substitution matched pre post (d # r))"

definition js_replace :: "string \<Rightarrow> string \<Rightarrow> string \<Rightarrow> string" where
  \<comment> \<open>\<open>s.replace(p, r)\<close> with a string pattern: the first occurrence only\<close>
  "js_replace s p r =
     (case js_indexOf s p of
        None \<Rightarrow> s
      | Some i \<Rightarrow> take i s @ get_substitution p (take i s) (drop (i + length p) s) r
                   @ drop (i + length p) s)"

fun split_on :: "char \<Rightarrow> string \<Rightarrow> string \<Rightarrow> string list" where
  \<comment> \<open>\<open>s.split(c)\<close> for a one-character separator; the first argument collects the current piece\<close>
  "split_on c cur [] = [rev cur]"
| "split_on c cur (x # xs) = (if x = c then rev cur # split_on c [] xs else split_on c (x # cur) xs)"

definition js_split :: "string \<Rightarrow> char \<Rightarrow> string list" where
  "js_split s c = split_on c [] s"

fun split_lines_acc :: "string \<Rightarrow> string \<Rightarrow> string list" where
  "split_lines_acc cur [] = [rev cur]"
| "split_lines_acc cur (x # xs) =
     (if x = CHR 0x0A then rev cur # split_lines_acc [] xs
      else if x = CHR 0x0D \<and> xs \<noteq> [] \<and> hd xs = CHR 0x0A then rev cur # split_lines_acc [] (tl xs)
      else split_lines_acc (x # cur) xs)"

definition split_lines :: "string \<Rightarrow> string list" where
  \<comment> \<open>\<open>s.split(/\r?\n/)\<close>\<close>
  "split_lines s = split_lines_acc [] s"

fun js_join :: "string \<Rightarrow> string list \<Rightarrow> string" where
  "js_join sep [] = []"
| "js_join sep [x] = x"
| "js_join sep (x # y # r) = x @ sep @ js_join sep (y # r)"

section \<open>Regular expressions\<close>

text \<open>
  A backtracking matcher in the order ECMAScript tries alternatives. A match state is the
  text before the current position (reversed), the text after it, and the captures made so
  far (latest first). \<open>matches\<close> lists every way a pattern matches at a state, first choice
  first, so the head of the list is the match a JavaScript engine reports. None of the
  patterns below has a capture group inside a repetition, and an iteration that consumes
  nothing is rejected, as in ECMAScript.
\<close>

type_synonym captures = "(nat \<times> string) list"
type_synonym mstate = "string \<times> string \<times> captures"

datatype re =
    Eps
  | Lit char
  | Cls "char \<Rightarrow> bool"
  | Seq re re
  | Alt re re
  | Star re
  | StarLazy re
  | Opt re
  | Group nat re
  | Bol
  | Eol
  | Look re

primrec star_iter :: "(mstate \<Rightarrow> mstate list) \<Rightarrow> nat \<Rightarrow> mstate \<Rightarrow> mstate list" where
  "star_iter f 0 s = [s]"
| "star_iter f (Suc n) s =
     concat (map (\<lambda>s'. if length (fst (snd s')) < length (fst (snd s)) then star_iter f n s' else [])
                 (f s)) @ [s]"

primrec lazy_iter :: "(mstate \<Rightarrow> mstate list) \<Rightarrow> nat \<Rightarrow> mstate \<Rightarrow> mstate list" where
  "lazy_iter f 0 s = [s]"
| "lazy_iter f (Suc n) s =
     s # concat (map (\<lambda>s'. if length (fst (snd s')) < length (fst (snd s)) then lazy_iter f n s' else [])
                     (f s))"

fun step_char :: "(char \<Rightarrow> bool) \<Rightarrow> mstate \<Rightarrow> mstate list" where
  "step_char P (b, [], cs) = []"
| "step_char P (b, x # xs, cs) = (if P x then [(x # b, xs, cs)] else [])"

primrec matches :: "bool \<Rightarrow> re \<Rightarrow> mstate \<Rightarrow> mstate list" where
  \<comment> \<open>the flag is the \<open>m\<close> (multiline) flag\<close>
  "matches ml Eps s = [s]"
| "matches ml (Lit c) s = step_char (\<lambda>x. x = c) s"
| "matches ml (Cls P) s = step_char P s"
| "matches ml (Seq p q) s = concat (map (matches ml q) (matches ml p s))"
| "matches ml (Alt p q) s = matches ml p s @ matches ml q s"
| "matches ml (Star p) s = star_iter (matches ml p) (length (fst (snd s))) s"
| "matches ml (StarLazy p) s = lazy_iter (matches ml p) (length (fst (snd s))) s"
| "matches ml (Opt p) s = filter (\<lambda>s'. length (fst (snd s')) < length (fst (snd s))) (matches ml p s) @ [s]"
| "matches ml (Group n p) s =
     map (\<lambda>(b', r', cs'). (b', r', (n, rev (take (length b' - length (fst s)) b')) # cs')) (matches ml p s)"
| "matches ml Bol s = (if fst s = [] \<or> (ml \<and> is_line_terminator (hd (fst s))) then [s] else [])"
| "matches ml Eol s =
     (if fst (snd s) = [] \<or> (ml \<and> is_line_terminator (hd (fst (snd s)))) then [s] else [])"
| "matches ml (Look p) s =
     (case matches ml p s of [] \<Rightarrow> [] | (b', r', cs') # _ \<Rightarrow> [(fst s, fst (snd s), cs')])"

definition Plus :: "re \<Rightarrow> re" where
  "Plus p = Seq p (Star p)"

definition PlusLazy :: "re \<Rightarrow> re" where
  "PlusLazy p = Seq p (StarLazy p)"

primrec lits :: "string \<Rightarrow> re" where
  "lits [] = Eps"
| "lits (c # cs) = Seq (Lit c) (lits cs)"

primrec seqs :: "re list \<Rightarrow> re" where
  "seqs [] = Eps"
| "seqs (r # rs) = Seq r (seqs rs)"

definition spaces :: re where
  \<comment> \<open>\<open>\s*\<close>\<close>
  "spaces = Star (Cls is_space)"

definition spaces1 :: re where
  \<comment> \<open>\<open>\s+\<close>\<close>
  "spaces1 = Plus (Cls is_space)"

definition word1 :: re where
  \<comment> \<open>\<open>\w+\<close>\<close>
  "word1 = Plus (Cls is_word)"

definition not_char :: "char \<Rightarrow> char \<Rightarrow> bool" where
  \<comment> \<open>\<open>[^c]\<close>\<close>
  "not_char c x = (x \<noteq> c)"

definition any_char :: "char \<Rightarrow> bool" where
  \<comment> \<open>\<open>.\<close>\<close>
  "any_char x = (\<not> is_line_terminator x)"

text \<open>
  A match found by a search: the text before the match, the matched text, the text after
  it, and the captures.
\<close>

record rmatch =
  m_pre :: string
  m_text :: string
  m_post :: string
  m_caps :: captures

definition mk_match :: "string \<Rightarrow> mstate \<Rightarrow> rmatch" where
  "mk_match b m =
     \<lparr>m_pre = rev b, m_text = rev (take (length (fst m) - length b) (fst m)),
      m_post = fst (snd m), m_caps = snd (snd m)\<rparr>"

definition cap :: "rmatch \<Rightarrow> nat \<Rightarrow> string" where
  \<comment> \<open>the text of a capture group that took part in the match\<close>
  "cap m n = (case map_of (m_caps m) n of Some t \<Rightarrow> t | None \<Rightarrow> [])"

fun search :: "bool \<Rightarrow> re \<Rightarrow> string \<Rightarrow> string \<Rightarrow> rmatch option" where
  \<comment> \<open>the leftmost match at or after the current position; \<open>b\<close> is the reversed text before it\<close>
  "search ml r b [] = (case matches ml r (b, [], []) of [] \<Rightarrow> None | m # _ \<Rightarrow> Some (mk_match b m))"
| "search ml r b (x # xs) =
     (case matches ml r (b, x # xs, []) of
        [] \<Rightarrow> search ml r (x # b) xs
      | m # _ \<Rightarrow> Some (mk_match b m))"

definition js_match :: "bool \<Rightarrow> re \<Rightarrow> string \<Rightarrow> rmatch option" where
  \<comment> \<open>\<open>s.match(r)\<close> and \<open>r.exec(s)\<close> from index 0, for a pattern without the \<open>g\<close> flag\<close>
  "js_match ml r s = search ml r [] s"

fun match_all_from :: "bool \<Rightarrow> re \<Rightarrow> string \<Rightarrow> string \<Rightarrow> rmatch list" where
  \<comment> \<open>the successive matches of a pattern with the \<open>g\<close> flag; after an empty match the
      search moves on by one character\<close>
  "match_all_from ml r b [] =
     (case matches ml r (b, [], []) of [] \<Rightarrow> [] | m # _ \<Rightarrow> [mk_match b m])"
| "match_all_from ml r b (x # xs) =
     (case matches ml r (b, x # xs, []) of
        [] \<Rightarrow> match_all_from ml r (x # b) xs
      | m # _ \<Rightarrow>
          (if length (fst (snd m)) < length (x # xs)
           then mk_match b m # match_all_from ml r (fst m) (fst (snd m))
           else mk_match b m # match_all_from ml r (x # b) xs))"

definition js_match_all :: "bool \<Rightarrow> re \<Rightarrow> string \<Rightarrow> rmatch list" where
  \<comment> \<open>\<open>s.matchAll(r)\<close>, \<open>s.match(r)\<close> with the \<open>g\<close> flag, and the \<open>exec\<close> loop on a fixed string\<close>
  "js_match_all ml r s = match_all_from ml r [] s"

fun remove_all_from :: "bool \<Rightarrow> re \<Rightarrow> string \<Rightarrow> string \<Rightarrow> string" where
  "remove_all_from ml r b [] = []"
| "remove_all_from ml r b (x # xs) =
     (case matches ml r (b, x # xs, []) of
        [] \<Rightarrow> x # remove_all_from ml r (x # b) xs
      | m # _ \<Rightarrow>
          (if length (fst (snd m)) < length (x # xs)
           then remove_all_from ml r (fst m) (fst (snd m))
           else x # remove_all_from ml r (x # b) xs))"

definition js_remove_all :: "bool \<Rightarrow> re \<Rightarrow> string \<Rightarrow> string" where
  \<comment> \<open>\<open>s.replace(r, "")\<close> for a pattern with the \<open>g\<close> flag\<close>
  "js_remove_all ml r s = remove_all_from ml r [] s"

definition js_remove_first :: "bool \<Rightarrow> re \<Rightarrow> string \<Rightarrow> string" where
  \<comment> \<open>\<open>s.replace(r, "")\<close> for a pattern without the \<open>g\<close> flag\<close>
  "js_remove_first ml r s =
     (case js_match ml r s of None \<Rightarrow> s | Some m \<Rightarrow> m_pre m @ m_post m)"

section \<open>Plain objects used as dictionaries\<close>

text \<open>
  A \<open>Record<string, T>\<close> built from an object literal is an own-property list in insertion
  order. A lookup of a name that is not an own property finds the members every object
  inherits from \<open>Object.prototype\<close>.
\<close>

definition object_prototype_keys :: "string list" where
  "object_prototype_keys =
     [''constructor'', ''__proto__'', ''hasOwnProperty'', ''isPrototypeOf'',
      ''propertyIsEnumerable'', ''toLocaleString'', ''toString'', ''valueOf'',
      ''__defineGetter__'', ''__defineSetter__'', ''__lookupGetter__'', ''__lookupSetter__'']"

fun obj_set :: "(string \<times> 'a) list \<Rightarrow> string \<Rightarrow> 'a \<Rightarrow> (string \<times> 'a) list" where
  \<comment> \<open>\<open>o[k] = v\<close> on own properties: an existing key keeps its place\<close>
  "obj_set [] k v = [(k, v)]"
| "obj_set ((k', v') # r) k v = (if k' = k then (k, v) # r else (k', v') # obj_set r k v)"

section \<open>The intermediate model\<close>

record ObjCParameter =
  param_name :: string
  param_type :: string
  param_isNullable :: bool
  param_documentation :: string

record ObjCMethod =
  isClassMethod :: bool
  returnType :: string
  method_name :: string
  parameters :: "ObjCParameter list"
  method_documentation :: string
  returnDocumentation :: string
  method_availability :: string

record ObjCProperty =
  prop_name :: string
  prop_type :: string
  isReadOnly :: bool
  prop_isNullable :: bool
  prop_documentation :: string
  attributes :: "string list"

record ObjCClass =
  class_name :: string
  superclass :: string
  protocols :: "string list"
  properties :: "ObjCProperty list"
  methods :: "ObjCMethod list"
  class_documentation :: string
  class_availability :: string

section \<open>parseDocumentation\<close>

record doc_result =
  mainDoc :: string
  paramDocs :: "(string \<times> string) list"
  returnDoc :: string

definition comment_marker_re :: re where
  \<comment> \<open>\<open>/\/\*!|\*\/|^\s*\*\s*/gm\<close>\<close>
  "comment_marker_re =
     Alt (lits ''/*!'') (Alt (lits ''*/'') (seqs [Bol, spaces, Lit CHR ''*'', spaces]))"

definition main_doc_re :: re where
  \<comment> \<open>\<open>/^(.*?)(?=@param|$)/\<close>\<close>
  "main_doc_re = seqs [Bol, Group 1 (StarLazy (Cls any_char)), Look (Alt (lits ''@param'') Eol)]"

definition inline_param_re :: re where
  \<comment> \<open>\<open>/@param\s+(\w+)\s+([^@]+)/g\<close>\<close>
  "inline_param_re =
     seqs [lits ''@param'', spaces1, Group 1 word1, spaces1, Group 2 (Plus (Cls (not_char CHR ''@'')))]"

definition inline_return_re :: re where
  \<comment> \<open>\<open>/@return\s+([^@]+)(?=@|$)/\<close>\<close>
  "inline_return_re =
     seqs [lits ''@return'', spaces1, Group 1 (Plus (Cls (not_char CHR ''@''))),
           Look (Alt (Lit CHR ''@'') Eol)]"

definition line_param_re :: re where
  \<comment> \<open>\<open>/@param\s+(\w+)\s+(.*)/\<close>\<close>
  "line_param_re = seqs [lits ''@param'', spaces1, Group 1 word1, spaces1, Group 2 (Star (Cls any_char))]"

definition set_param_doc :: "(string \<times> string) list \<Rightarrow> string \<Rightarrow> string \<Rightarrow> (string \<times> string) list" where
  \<comment> \<open>\<open>paramDocs[name] = doc\<close>; assigning a string to \<open>__proto__\<close> creates no property\<close>
  "set_param_doc docs k v = (if k = ''__proto__'' then docs else obj_set docs k v)"

record doc_state =
  ds_paramDocs :: "(string \<times> string) list"
  ds_returnDoc :: string
  ds_mainDocLines :: "string list"
  ds_currentParam :: string
  ds_currentParamDoc :: string

definition doc_line :: "doc_state \<Rightarrow> string \<Rightarrow> doc_state" where
  \<comment> \<open>one turn of the loop over the lines of a multi-line comment\<close>
  "doc_line st line =
     (if js_startsWith line ''@param'' then
        (let st1 = (if ds_currentParam st \<noteq> []
                    then st\<lparr>ds_paramDocs := set_param_doc (ds_paramDocs st) (ds_currentParam st)
                                                (js_trim (ds_currentParamDoc st)),
                            ds_currentParamDoc := []\<rparr>
                    else st)
         in case js_match False line_param_re line of
              Some m \<Rightarrow> st1\<lparr>ds_currentParam := cap m 1, ds_currentParamDoc := cap m 2\<rparr>
            | None \<Rightarrow> st1)
      else if js_startsWith line ''@return'' then
        (let st1 = (if ds_currentParam st \<noteq> []
                    then st\<lparr>ds_paramDocs := set_param_doc (ds_paramDocs st) (ds_currentParam st)
                                                (js_trim (ds_currentParamDoc st)),
                            ds_currentParam := [], ds_currentParamDoc := []\<rparr>
                    else st)
         in st1\<lparr>ds_returnDoc := js_trim (js_replace line ''@return'' [])\<rparr>)
      else if ds_currentParam st \<noteq> [] then
        st\<lparr>ds_currentParamDoc := ds_currentParamDoc st @ '' '' @ line\<rparr>
      else if \<not> js_startsWith line ''@'' then
        st\<lparr>ds_mainDocLines := ds_mainDocLines st @ [line]\<rparr>
      else st)"

definition parseDocumentation :: "string \<Rightarrow> doc_result" where
  "parseDocumentation docComment =
     (let cleanedComment = js_trim (js_remove_all True comment_marker_re docComment);
          lines = filter (\<lambda>l. length l > 0) (map js_trim (split_lines cleanedComment))
      in if length lines = 1 \<and> js_includes (hd lines) ''@param'' then
           (let singleLine = hd lines;
                mainDocLines =
                  (case js_match False main_doc_re singleLine of
                     Some m \<Rightarrow> if js_trim (cap m 1) \<noteq> [] then [js_trim (cap m 1)] else []
                   | None \<Rightarrow> []);
                docs = fold (\<lambda>m d. set_param_doc d (cap m 1) (js_trim (cap m 2)))
                            (js_match_all False inline_param_re singleLine) [];
                ret = (case js_match False inline_return_re singleLine of
                         Some m \<Rightarrow> js_trim (cap m 1)
                       | None \<Rightarrow> [])
            in \<lparr>mainDoc = js_trim (js_join '' '' mainDocLines), paramDocs = docs, returnDoc = ret\<rparr>)
         else
           (let st0 = \<lparr>ds_paramDocs = [], ds_returnDoc = [], ds_mainDocLines = [],
                       ds_currentParam = [], ds_currentParamDoc = []\<rparr>;
                st = fold (\<lambda>l s. doc_line s l) lines st0;
                docs = (if ds_currentParam st \<noteq> []
                        then set_param_doc (ds_paramDocs st) (ds_currentParam st)
                               (js_trim (ds_currentParamDoc st))
                        else ds_paramDocs st)
            in \<lparr>mainDoc = js_trim (js_join '' '' (ds_mainDocLines st)), paramDocs = docs,
                returnDoc = ds_returnDoc st\<rparr>))"

section \<open>parseMethodSignature\<close>

datatype error = Error string | TypeError string

record MethodSignature =
  sig_isClassMethod :: bool
  sig_returnType :: string
  sig_name :: string
  sig_parameters :: "ObjCParameter list"
  sig_availability :: string

definition is_sigil :: "char \<Rightarrow> bool" where
  \<comment> \<open>\<open>[+-]\<close>\<close>
  "is_sigil c = (c = CHR ''+'' \<or> c = CHR ''-'')"

definition return_type_re :: re where
  \<comment> \<open>\<open>/[+-]\s*\(([\w\s*]+)\)/\<close>\<close>
  "return_type_re =
     seqs [Cls is_sigil, spaces, Lit CHR ''('',
           Group 1 (Plus (Cls (\<lambda>c. is_word c \<or> is_space c \<or> c = CHR ''*''))), Lit CHR '')'']"

definition method_name_re :: re where
  \<comment> \<open>\<open>/[+-]\s*\([^)]+\)\s*(\w+(?:With\w+)?)/\<close>\<close>
  "method_name_re =
     seqs [Cls is_sigil, spaces, Lit CHR ''('', Plus (Cls (not_char CHR '')'')), Lit CHR '')'', spaces,
           Group 1 (Seq word1 (Opt (Seq (lits ''With'') word1)))]"

definition param_re :: re where
  \<comment> \<open>\<open>/(\w+):\s*\(([^)]+)\)\s*(\w+)/g\<close>\<close>
  "param_re =
     seqs [Group 1 word1, Lit CHR '':'', spaces, Lit CHR ''('',
           Group 2 (Plus (Cls (not_char CHR '')''))), Lit CHR '')'', spaces, Group 3 word1]"

definition availability_re :: re where
  \<comment> \<open>\<open>/API_AVAILABLE\(([^)]+)\)/\<close>\<close>
  "availability_re =
     seqs [lits ''API_AVAILABLE'', Lit CHR ''('', Group 1 (Plus (Cls (not_char CHR '')''))), Lit CHR '')'']"

definition component_re :: re where
  \<comment> \<open>\<open>/(\w+):/g\<close>\<close>
  "component_re = seqs [Group 1 word1, Lit CHR '':'']"

definition strip_semicolon :: "string \<Rightarrow> string" where
  \<comment> \<open>\<open>s = s.trim(); if (s.endsWith(";")) s = s.slice(0, -1)\<close>\<close>
  "strip_semicolon s = (let t = js_trim s in if js_endsWith t '';'' then butlast t else t)"

definition parse_availability :: "string \<Rightarrow> string" where
  "parse_availability s =
     (case js_match False availability_re s of
        None \<Rightarrow> []
      | Some m \<Rightarrow>
          (let a = cap m 1
           in if js_includes a ''('' \<and> \<not> js_endsWith a '')'' then a @ '')'' else a))"

definition parse_parameter :: "rmatch \<Rightarrow> ObjCParameter" where
  "parse_parameter m =
     (let paramType = js_trim (cap m 2)
      in \<lparr>param_name = cap m 3,
          param_type = js_trim (js_replace (js_replace paramType ''nullable'' []) ''*'' []),
          param_isNullable = js_includes paramType ''nullable'',
          param_documentation = []\<rparr>)"

definition full_method_name :: "string \<Rightarrow> string list \<Rightarrow> string" where
  \<comment> \<open>the base name, a colon when there is a component, then every component after the first\<close>
  "full_method_name baseMethodName componentNames =
     (if length componentNames > 0 then baseMethodName @ '':'' @ concat (tl componentNames)
      else baseMethodName)"

definition parseMethodSignature :: "string \<Rightarrow> error + MethodSignature" where
  "parseMethodSignature signature0 =
     (let signature = strip_semicolon signature0
      in case js_match False return_type_re signature of
           None \<Rightarrow> Inl (Error (''Failed to parse return type from signature: '' @ signature))
         | Some rt \<Rightarrow>
             (case js_match False method_name_re signature of
                None \<Rightarrow> Inl (Error (''Failed to parse method name from signature: '' @ signature))
              | Some mn \<Rightarrow>
                  Inr \<lparr>sig_isClassMethod = js_startsWith signature ''+'',
                       sig_returnType = js_trim (cap rt 1),
                       sig_name = full_method_name (js_trim (cap mn 1))
                                    (map m_text (js_match_all False component_re signature)),
                       sig_parameters = map parse_parameter (js_match_all False param_re signature),
                       sig_availability = parse_availability signature\<rparr>))"

definition count_colons :: "string \<Rightarrow> nat" where
  "count_colons s = length (filter (\<lambda>c. c = CHR '':'') s)"

section \<open>Type mapping\<close>

text \<open>
  A converter returns a string, except when the looked-up name is one every object inherits:
  then the lookup yields that inherited member, or a string built from it.
\<close>

datatype ts_type =
    TsText string
  | ProtoMember string
  | ProtoMemberText string string

definition interface_typeMap :: "(string \<times> string) list" where
  "interface_typeMap =
     [(''NSString'', ''string''), (''NSNumber'', ''number''), (''NSInteger'', ''number''),
      (''NSUInteger'', ''number''), (''BOOL'', ''boolean''), (''CGFloat'', ''number''),
      (''double'', ''number''), (''float'', ''number''), (''int'', ''number''), (''long'', ''number''),
      (''char'', ''string''), (''id'', ''any''), (''instancetype'', ''any''), (''void'', ''void''),
      (''NSArray'', ''Array<any>''), (''NSDictionary'', ''Record<string, any>''),
      (''NSSet'', ''Set<any>''), (''NSImage'', ''any''), (''SEL'', ''string'')]"

definition convertTypeToTypeScript :: "string \<Rightarrow> bool \<Rightarrow> ts_type" where
  \<comment> \<open>\<open>typeMap[objcType] || objcType\<close>, then \<open>" | null"\<close> appended when nullable\<close>
  "convertTypeToTypeScript objcType isNullable =
     (case map_of interface_typeMap objcType of
        Some t \<Rightarrow> TsText (if isNullable then t @ '' | null'' else t)
      | None \<Rightarrow>
          if objcType \<in> set object_prototype_keys
          then (if isNullable then ProtoMemberText objcType '' | null'' else ProtoMember objcType)
          else TsText (if isNullable then objcType @ '' | null'' else objcType))"

definition class_typeMap :: "(string \<times> string) list" where
  "class_typeMap =
     [(''void'', ''void''), (''BOOL'', ''boolean''), (''NSInteger'', ''number''),
      (''NSUInteger'', ''number''), (''CGFloat'', ''number''), (''double'', ''number''),
      (''float'', ''number''), (''int'', ''number''), (''NSString*'', ''string''), (''id'', ''id'')]"

definition clean_type_key :: "string \<Rightarrow> string" where
  \<comment> \<open>the key looked up: nullability markers removed, trimmed, one trailing \<open>*\<close> dropped\<close>
  "clean_type_key objcType =
     (let cleanType = js_trim (js_replace (js_replace objcType ''nullable'' []) ''_Nullable'' [])
      in if js_endsWith cleanType ''*'' then js_substring cleanType 0 (length cleanType - 1)
         else cleanType)"

definition has_nullable_marker :: "string \<Rightarrow> bool" where
  "has_nullable_marker objcType = (js_includes objcType ''nullable'' \<or> js_includes objcType ''_Nullable'')"

definition convertObjCTypeToTypeScriptString :: "string \<Rightarrow> ts_type" where
  "convertObjCTypeToTypeScriptString objcType =
     (if objcType = [] then TsText ''void''
      else
        (let isNullable = has_nullable_marker objcType;
             cleanType = clean_type_key objcType
         in case map_of class_typeMap cleanType of
              Some t \<Rightarrow> TsText (if isNullable then t @ '' | null'' else t)
            | None \<Rightarrow>
                if cleanType \<in> set object_prototype_keys
                then (if isNullable then ProtoMemberText cleanType '' | null'' else ProtoMember cleanType)
                else TsText (if isNullable then ''id | null'' else ''id'')))"

section \<open>parsePropertyDeclaration\<close>

record PropertyInfo =
  pi_name :: string
  pi_type :: string
  pi_isReadOnly :: bool
  pi_isNullable :: bool
  pi_attributes :: "string list"

definition attribute_group :: re where
  \<comment> \<open>\<open>(?:\([^)]+\))?\<close>\<close>
  "attribute_group = Opt (seqs [Lit CHR ''('', Plus (Cls (not_char CHR '')'')), Lit CHR '')''])"

definition basic_property_re :: re where
  \<comment> \<open>\<open>/(@property\s*(?:\([^)]+\))?\s*[^;]+?)(?:\s+API_|\s*$)/\<close>\<close>
  "basic_property_re =
     seqs [Group 1 (seqs [lits ''@property'', spaces, attribute_group, spaces,
                          PlusLazy (Cls (not_char CHR '';''))]),
           Alt (Seq spaces1 (lits ''API_'')) (Seq spaces Eol)]"

definition attributes_re :: re where
  \<comment> \<open>\<open>/@property\s*\(([^)]+)\)/\<close>\<close>
  "attributes_re =
     seqs [lits ''@property'', spaces, Lit CHR ''('', Group 1 (Plus (Cls (not_char CHR '')''))),
           Lit CHR '')'']"

definition property_prefix_re :: re where
  \<comment> \<open>\<open>/@property\s*(?:\([^)]+\))?\s*/\<close>\<close>
  "property_prefix_re = seqs [lits ''@property'', spaces, attribute_group, spaces]"

definition last_word_re :: re where
  \<comment> \<open>\<open>/(\w+)$/\<close>\<close>
  "last_word_re = seqs [Group 1 word1, Eol]"

definition minimal_property :: PropertyInfo where
  "minimal_property =
     \<lparr>pi_name = [], pi_type = ''id'', pi_isReadOnly = False, pi_isNullable = False,
      pi_attributes = []\<rparr>"

definition parse_property_body :: "string \<Rightarrow> error + PropertyInfo" where
  \<comment> \<open>the body of the \<open>try\<close> block, after the declaration has been trimmed and its semicolon
      dropped; \<open>Inl\<close> is a thrown error\<close>
  "parse_property_body propertyDeclaration =
     (case js_match False basic_property_re propertyDeclaration of
        None \<Rightarrow> Inl (Error (''Failed to extract basic property declaration from: ''
                             @ propertyDeclaration))
      | Some bm \<Rightarrow>
          (let basicProperty = js_trim (cap bm 1);
               attributes = (case js_match False attributes_re basicProperty of
                               Some am \<Rightarrow> map js_trim (js_split (cap am 1) CHR '','')
                             | None \<Rightarrow> []);
               typeAndName = js_trim (js_remove_first False property_prefix_re basicProperty)
           in case js_match False last_word_re typeAndName of
                None \<Rightarrow> Inl (Error (''Failed to extract property name from: '' @ typeAndName))
              | Some nm \<Rightarrow>
                  (let name = cap nm 1;
                       typeWithAsterisk =
                         js_trim (js_substring typeAndName 0
                                    (case js_lastIndexOf typeAndName name of Some i \<Rightarrow> i | None \<Rightarrow> 0))
                   in Inr \<lparr>pi_name = name,
                           pi_type = js_trim (js_replace (js_replace (js_replace typeWithAsterisk
                                       ''nullable'' []) ''_Nullable'' []) ''*'' []),
                           pi_isReadOnly = (''readonly'' \<in> set attributes),
                           pi_isNullable = (js_includes typeWithAsterisk ''*''
                                            \<or> js_includes typeWithAsterisk ''nullable''
                                            \<or> js_includes typeWithAsterisk ''_Nullable''),
                           pi_attributes = attributes\<rparr>)))"

definition error_message :: "error \<Rightarrow> string" where
  "error_message e = (case e of Error m \<Rightarrow> m | TypeError m \<Rightarrow> m)"

definition parsePropertyDeclaration :: "string \<Rightarrow> string list \<times> PropertyInfo" where
  \<comment> \<open>the warnings written to the console, and the value returned\<close>
  "parsePropertyDeclaration propertyDeclaration0 =
     (let propertyDeclaration = strip_semicolon propertyDeclaration0
      in case parse_property_body propertyDeclaration of
           Inr p \<Rightarrow> ([], p)
         | Inl e \<Rightarrow>
             ([''Error parsing property declaration: '' @ propertyDeclaration, error_message e],
              minimal_property))"

section \<open>Emitted declarations\<close>

text \<open>
  The structures handed to the code builder, in the order the generator adds them. A
  parameter type is either the result of a type converter or the object type the generator
  writes for several parameters, \<open>{ a: T, b?: U }\<close>, kept as its fields (name, question mark,
  type).
\<close>

datatype scope = Public | Protected | Private

datatype ts_type_expr =
    Plain ts_type
  | ObjectType "(string \<times> bool \<times> ts_type) list"

record ts_parameter =
  tp_name :: string
  tp_type :: ts_type_expr
  tp_hasQuestionToken :: bool
  tp_isRestParameter :: bool

record ts_property =
  pr_name :: string
  pr_type :: "string option"
  pr_initializer :: "string option"
  pr_isStatic :: bool
  pr_isReadonly :: bool
  pr_scope :: scope

record ts_get_accessor =
  ga_name :: string
  ga_scope :: scope
  ga_returnType :: ts_type
  ga_body :: string

record ts_set_accessor =
  sa_name :: string
  sa_scope :: scope
  sa_parameters :: "ts_parameter list"
  sa_body :: string

datatype ctor_stmt =
    Line string
  | IfBlock string "string list"

record ts_constructor =
  co_scope :: scope
  co_parameters :: "ts_parameter list"
  co_overloads :: "ts_parameter list list"
  co_body :: "ctor_stmt list"

record ts_method =
  me_name :: string
  me_scope :: scope
  me_isStatic :: bool
  me_returnType :: ts_type
  me_parameters :: "ts_parameter list"
  me_body :: "string list option"

datatype ts_member =
    PropertyMember ts_property
  | GetAccessor ts_get_accessor
  | SetAccessor ts_set_accessor
  | ConstructorMember ts_constructor
  | MethodMember ts_method

record ts_class =
  cl_name :: string
  cl_isExported :: bool
  cl_extends :: "string option"
  cl_members :: "ts_member list"

record ts_import =
  im_defaultImport :: "string option"
  im_namedImports :: "string list"
  im_moduleSpecifier :: string

record ts_file =
  f_path :: string
  f_imports :: "ts_import list"
  f_class :: ts_class

definition dq :: string where
  \<comment> \<open>the double quote\<close>
  "dq = [CHR 0x22]"

fun show_nat :: "nat \<Rightarrow> string" where
  "show_nat n =
     (if n < 10 then [char_of (48 + n)] else show_nat (n div 10) @ [char_of (48 + n mod 10)])"

section \<open>The dispatch body of an overloaded method\<close>

text \<open>
  The body written for the implementation of an overload group: the named parameters, the
  receiver, one branch per member (argument count and selector), and the base name for the
  error. \<open>render_dispatch\<close> is the text the generator writes, line by line;
  \<open>run_dispatch\<close> is what that text does when the method is called.
\<close>

record dispatch =
  d_named :: "string list"
  d_target :: string
  d_branches :: "(nat \<times> string) list"
  d_base :: string

fun render_branches :: "bool \<Rightarrow> string \<Rightarrow> (nat \<times> string) list \<Rightarrow> string list" where
  "render_branches isFirst target [] = []"
| "render_branches isFirst target ((n, sel) # r) =
     [(if isFirst then ''if ('' else ''else if ('') @ ''allArgs.length === '' @ show_nat n @ '') {'',
      ''  return objc.msgSend('' @ target @ '', '' @ dq @ sel @ dq @ '', ...allArgs);'',
      ''}'']
     @ render_branches False target r"

definition render_dispatch :: "dispatch \<Rightarrow> string list" where
  "render_dispatch d =
     [''// Determine which method to call based on arguments'', ''const allArgs = [...args];'']
     @ (if length (d_named d) > 0
        then ''// Add named parameters to args array if they exist''
             # map (\<lambda>p. ''if ('' @ p @ '' !== undefined) allArgs.unshift('' @ p @ '');'') (d_named d)
        else [])
     @ render_branches True (d_target d) (d_branches d)
     @ [''else {'',
        ''  throw new Error('' @ dq @ ''Invalid number of arguments for method '' @ d_base d @ dq @ '');'',
        ''}'']"

text \<open>
  A call passes a list of values; \<open>None\<close> is \<open>undefined\<close>. The named parameters take the
  leading values (a missing one is \<open>undefined\<close>), the rest parameter \<open>args\<close> the remaining
  ones. The body is read for parameter names that are distinct and are not names the body
  itself uses; any other parameter list is \<open>NotValid\<close>.
\<close>

datatype 'v outcome =
    Sends string string "'v option list"
  | Throws string
  | NotValid

definition body_identifiers :: "string list" where
  "body_identifiers = [''args'', ''allArgs'', ''objc'', ''undefined'', ''Error'']"

definition bind_named :: "string list \<Rightarrow> 'v option list \<Rightarrow> 'v option list" where
  \<comment> \<open>the value of each named parameter\<close>
  "bind_named named actuals = map (\<lambda>i. if i < length actuals then actuals ! i else None) [0..<length named]"

definition unshift_defined :: "'v option list \<Rightarrow> 'v option list \<Rightarrow> 'v option list" where
  \<comment> \<open>\<open>if (p !== undefined) allArgs.unshift(p);\<close> for each named parameter in turn\<close>
  "unshift_defined vals allArgs = fold (\<lambda>v acc. if v \<noteq> None then v # acc else acc) vals allArgs"

definition collect_args :: "string list \<Rightarrow> 'v option list \<Rightarrow> 'v option list" where
  "collect_args named actuals = unshift_defined (bind_named named actuals) (drop (length named) actuals)"

fun first_arity :: "nat \<Rightarrow> (nat \<times> string) list \<Rightarrow> string option" where
  "first_arity k [] = None"
| "first_arity k ((n, sel) # r) = (if k = n then Some sel else first_arity k r)"

definition run_dispatch :: "dispatch \<Rightarrow> 'v option list \<Rightarrow> 'v outcome" where
  "run_dispatch d actuals =
     (if distinct (d_named d) \<and> set (d_named d) \<inter> set body_identifiers = {} then
        (let allArgs = collect_args (d_named d) actuals
         in case first_arity (length allArgs) (d_branches d) of
              Some sel \<Rightarrow> Sends (d_target d) sel allArgs
            | None \<Rightarrow> Throws (''Invalid number of arguments for method '' @ d_base d))
      else NotValid)"

section \<open>Grouping methods\<close>

definition method_key :: "ObjCMethod \<Rightarrow> string" where
  \<comment> \<open>\<open>`${isClassMethod ? "static_" : ""}${method.name.split(":")[0]}`\<close>\<close>
  "method_key m = (if isClassMethod m then ''static_'' else []) @ hd (js_split (method_name m) CHR '':'')"

definition add_to_group ::
  "error + (string \<times> ObjCMethod list) list \<Rightarrow> ObjCMethod \<Rightarrow> error + (string \<times> ObjCMethod list) list" where
  \<comment> \<open>one turn of the grouping loop. A key that is no own property but names an inherited
      member finds that member, which has no \<open>push\<close>: a TypeError\<close>
  "add_to_group acc m =
     (case acc of
        Inl e \<Rightarrow> Inl e
      | Inr groups \<Rightarrow>
          if js_startsWith (method_name m) ''init'' then Inr groups
          else
            (let methodKey = method_key m
             in case map_of groups methodKey of
                  Some mths \<Rightarrow> Inr (obj_set groups methodKey (mths @ [m]))
                | None \<Rightarrow>
                    if methodKey \<in> set object_prototype_keys
                    then Inl (TypeError (''methodGroups[methodKey].push is not a function''))
                    else Inr (groups @ [(methodKey, [m])])))"

definition group_methods :: "ObjCMethod list \<Rightarrow> error + (string \<times> ObjCMethod list) list" where
  "group_methods mths = fold (\<lambda>m acc. add_to_group acc m) mths (Inr [])"

definition is_digit :: "char \<Rightarrow> bool" where
  "is_digit c = (let n = (of_char c :: nat) in 48 \<le> n \<and> n \<le> 57)"

definition digits_value :: "string \<Rightarrow> nat" where
  "digits_value k = foldl (\<lambda>a c. 10 * a + (of_char c - 48)) 0 k"

definition is_array_index :: "string \<Rightarrow> bool" where
  \<comment> \<open>a canonical decimal numeral below \<open>2^32 - 1\<close>\<close>
  "is_array_index k =
     (k \<noteq> [] \<and> list_all is_digit k \<and> (k = ''0'' \<or> hd k \<noteq> CHR ''0'') \<and> digits_value k < 4294967295)"

definition object_entries :: "(string \<times> 'a) list \<Rightarrow> (string \<times> 'a) list" where
  \<comment> \<open>\<open>Object.entries\<close>: array-index keys in ascending order, then the other keys in
      insertion order\<close>
  "object_entries kvs =
     sort_key (\<lambda>kv. digits_value (fst kv)) (filter (\<lambda>kv. is_array_index (fst kv)) kvs)
     @ filter (\<lambda>kv. \<not> is_array_index (fst kv)) kvs"

section \<open>Emitting a class\<close>

definition class_reference :: "string \<Rightarrow> ts_member" where
  "class_reference cname =
     PropertyMember \<lparr>pr_name = ''Class'', pr_type = None,
                     pr_initializer = Some (''objc.classes['' @ dq @ cname @ dq @ '']''),
                     pr_isStatic = True, pr_isReadonly = True, pr_scope = Private\<rparr>"

definition pointer_property :: ts_member where
  "pointer_property =
     PropertyMember \<lparr>pr_name = ''pointer'', pr_type = Some ''id'', pr_initializer = None,
                     pr_isStatic = False, pr_isReadonly = False, pr_scope = Protected\<rparr>"

definition capitalize :: "string \<Rightarrow> string" where
  \<comment> \<open>\<open>s.charAt(0).toUpperCase() + s.slice(1)\<close>\<close>
  "capitalize s = js_toUpperCase (js_charAt s 0) @ drop 1 s"

definition property_members :: "(string \<Rightarrow> ts_type) \<Rightarrow> string \<Rightarrow> ObjCProperty \<Rightarrow> ts_member list" where
  \<comment> \<open>the getter, and the setter unless the property is read-only; the second argument is the
      name of the setter's parameter\<close>
  "property_members conv valueName property =
     (let tsType = conv (prop_type property); getterName = prop_name property
      in GetAccessor \<lparr>ga_name = getterName, ga_scope = Public, ga_returnType = tsType,
                       ga_body = ''return objc.msgSend(this.pointer, '' @ dq @ getterName @ dq @ '');''\<rparr>
         # (if \<not> isReadOnly property
            then [SetAccessor \<lparr>sa_name = getterName, sa_scope = Public,
                    sa_parameters = [\<lparr>tp_name = valueName, tp_type = Plain tsType,
                                      tp_hasQuestionToken = False, tp_isRestParameter = False\<rparr>],
                    sa_body = ''objc.msgSend(this.pointer, '' @ dq @ ''set'' @ capitalize getterName
                              @ '':'' @ dq @ '', '' @ valueName @ '');''\<rparr>]
            else []))"

definition emit_properties :: "ObjCProperty list \<Rightarrow> ts_member list" where
  \<comment> \<open>the loop over the properties: one without a name is skipped\<close>
  "emit_properties ps =
     concat (map (\<lambda>p. if prop_name p = [] then []
                       else property_members convertObjCTypeToTypeScriptString ''value'' p) ps)"

definition main_constructor :: "string \<Rightarrow> ts_member" where
  "main_constructor cname =
     ConstructorMember \<lparr>co_scope = Public, co_parameters = [], co_overloads = [],
       co_body = [Line ''super();'',
                  Line (''this.pointer = objc.msgSend(objc.msgSend('' @ cname @ ''.Class, '' @ dq
                        @ ''alloc'' @ dq @ ''), '' @ dq @ ''init'' @ dq @ '');'')]\<rparr>"

definition isSetterMethod :: "ObjCMethod \<Rightarrow> bool" where
  "isSetterMethod firstMethod =
     (js_startsWith (method_name firstMethod) ''set''
      \<and> length (parameters firstMethod) = 1
      \<and> length (method_name firstMethod) > 4
      \<and> js_charAt (method_name firstMethod) 3 = js_toUpperCase (js_charAt (method_name firstMethod) 3)
      \<and> js_endsWith (method_name firstMethod) '':'')"

definition setter_property_name :: "ObjCMethod \<Rightarrow> string" where
  \<comment> \<open>the name between \<open>set\<close> and the last colon, first letter in lower case, colons turned
      into underscores\<close>
  "setter_property_name firstMethod =
     (let n = method_name firstMethod;
          propertyName = js_substring n 3 (length n - 1);
          lowered = js_toLowerCase (js_charAt propertyName 0) @ drop 1 propertyName
      in map (\<lambda>c. if c = CHR '':'' then CHR ''_'' else c) lowered)"

definition has_set_accessor :: "ts_member list \<Rightarrow> string \<Rightarrow> bool" where
  \<comment> \<open>\<open>classDeclaration.getSetAccessor(name)\<close> finds one\<close>
  "has_set_accessor members n = (\<exists>m \<in> set members. case m of SetAccessor a \<Rightarrow> sa_name a = n | _ \<Rightarrow> False)"

definition method_target :: "string \<Rightarrow> bool \<Rightarrow> string" where
  "method_target cname isStatic = (if isStatic then cname @ ''.Class'' else ''this.pointer'')"

definition methodNameWithColons :: "ObjCMethod \<Rightarrow> string" where
  "methodNameWithColons m =
     (if js_includes (method_name m) '':'' then method_name m
      else method_name m @ replicate (length (parameters m)) CHR '':'')"

definition plain_parameter :: "bool \<Rightarrow> ObjCParameter \<Rightarrow> ts_parameter" where
  "plain_parameter optional p =
     \<lparr>tp_name = param_name p, tp_type = Plain (convertObjCTypeToTypeScriptString (param_type p)),
      tp_hasQuestionToken = optional, tp_isRestParameter = False\<rparr>"

definition overload_signature :: "string \<Rightarrow> bool \<Rightarrow> ObjCMethod \<Rightarrow> ts_member" where
  "overload_signature baseMethodName isStatic overloadMethod =
     MethodMember \<lparr>me_name = baseMethodName, me_scope = Public, me_isStatic = isStatic,
       me_returnType = convertObjCTypeToTypeScriptString (returnType overloadMethod),
       me_parameters =
         (case parameters overloadMethod of
            [] \<Rightarrow> []
          | [p] \<Rightarrow> [plain_parameter (param_isNullable p) p]
          | ps \<Rightarrow> [\<lparr>tp_name = ''params'',
                     tp_type = ObjectType (map (\<lambda>p. (param_name p, param_isNullable p,
                                   convertObjCTypeToTypeScriptString (param_type p))) ps),
                     tp_hasQuestionToken = False, tp_isRestParameter = False\<rparr>]),
       me_body = None\<rparr>"

definition add_implementation_parameters :: "ts_parameter list \<Rightarrow> ObjCMethod \<Rightarrow> ts_parameter list" where
  \<comment> \<open>the parameters one member adds to the implementation: its only parameter as it is, or
      each of its several parameters whose name is not there yet\<close>
  "add_implementation_parameters acc overloadMethod =
     (case parameters overloadMethod of
        [] \<Rightarrow> acc
      | [p] \<Rightarrow> acc @ [plain_parameter True p]
      | ps \<Rightarrow> fold (\<lambda>p a. if param_name p \<in> set (map tp_name a) then a
                            else a @ [plain_parameter True p]) ps acc)"

definition implementation_parameters :: "ObjCMethod list \<Rightarrow> ts_parameter list" where
  "implementation_parameters mths = fold (\<lambda>m acc. add_implementation_parameters acc m) mths []"

definition rest_parameter :: ts_parameter where
  "rest_parameter =
     \<lparr>tp_name = ''args'', tp_type = Plain (TsText ''any[]''), tp_hasQuestionToken = False,
      tp_isRestParameter = True\<rparr>"

definition dispatch_of :: "string \<Rightarrow> bool \<Rightarrow> string \<Rightarrow> ObjCMethod list \<Rightarrow> dispatch" where
  "dispatch_of cname isStatic baseMethodName mths =
     \<lparr>d_named = map tp_name (implementation_parameters mths),
      d_target = method_target cname isStatic,
      d_branches = map (\<lambda>m. (length (parameters m), methodNameWithColons m)) mths,
      d_base = baseMethodName\<rparr>"

definition overload_implementation :: "string \<Rightarrow> bool \<Rightarrow> string \<Rightarrow> ObjCMethod list \<Rightarrow> ts_member" where
  "overload_implementation cname isStatic baseMethodName mths =
     MethodMember \<lparr>me_name = baseMethodName, me_scope = Public, me_isStatic = isStatic,
       me_returnType = TsText ''any'',
       me_parameters = implementation_parameters mths @ [rest_parameter],
       me_body = Some (render_dispatch (dispatch_of cname isStatic baseMethodName mths))\<rparr>"

definition regular_method :: "string \<Rightarrow> bool \<Rightarrow> ObjCMethod \<Rightarrow> ts_member" where
  "regular_method cname isStatic firstMethod =
     MethodMember \<lparr>me_name = hd (js_split (method_name firstMethod) CHR '':''), me_scope = Public,
       me_isStatic = isStatic,
       me_returnType = convertObjCTypeToTypeScriptString (returnType firstMethod),
       me_parameters = map (\<lambda>p. plain_parameter (param_isNullable p) p) (parameters firstMethod),
       me_body = Some
         [if parameters firstMethod = []
          then ''return objc.msgSend('' @ method_target cname isStatic @ '', '' @ dq
               @ method_name firstMethod @ dq @ '');''
          else ''return objc.msgSend('' @ method_target cname isStatic @ '', '' @ dq
               @ methodNameWithColons firstMethod @ dq @ '', ''
               @ js_join '', '' (map param_name (parameters firstMethod)) @ '');'']\<rparr>"

definition emit_group :: "string \<Rightarrow> ts_member list \<Rightarrow> string \<times> ObjCMethod list \<Rightarrow> ts_member list" where
  \<comment> \<open>one turn of the loop over the groups: the members of the class so far, extended\<close>
  "emit_group cname members g =
     (let methodKey = fst g; mths = snd g;
          isStatic = js_startsWith methodKey ''static_'';
          baseMethodName = js_replace methodKey ''static_'' [];
          firstMethod = hd mths
      in if isSetterMethod firstMethod then
           (let propertyName = setter_property_name firstMethod
            in if has_set_accessor members propertyName then members
               else members @
                 [SetAccessor \<lparr>sa_name = propertyName, sa_scope = Public,
                    sa_parameters = [\<lparr>tp_name = ''value'',
                        tp_type = Plain (convertObjCTypeToTypeScriptString
                                           (param_type (hd (parameters firstMethod)))),
                        tp_hasQuestionToken = False, tp_isRestParameter = False\<rparr>],
                    sa_body = ''objc.msgSend(this.pointer, '' @ dq @ method_name firstMethod @ dq
                              @ '', value);''\<rparr>])
         else if length mths > 1 then
           members @ map (overload_signature baseMethodName isStatic) mths
                   @ [overload_implementation cname isStatic baseMethodName mths]
         else members @ [regular_method cname isStatic firstMethod])"

definition class_header_members :: "ObjCClass \<Rightarrow> ts_member list" where
  \<comment> \<open>what the class holds before the methods are processed\<close>
  "class_header_members c =
     [class_reference (class_name c), pointer_property] @ emit_properties (properties c)
     @ [main_constructor (class_name c)]"

definition emit_class :: "ObjCClass \<Rightarrow> ts_class \<times> error option" where
  \<comment> \<open>the class declaration built for one extracted class, and the error that ended the run
      while its methods were grouped, if any\<close>
  "emit_class c =
     (let base = \<lparr>cl_name = class_name c, cl_isExported = True,
                  cl_extends = (if superclass c \<noteq> [] then Some (superclass c) else None),
                  cl_members = class_header_members c\<rparr>
      in case group_methods (methods c) of
           Inl e \<Rightarrow> (base, Some e)
         | Inr groups \<Rightarrow>
             (base\<lparr>cl_members := fold (\<lambda>g members. emit_group (class_name c) members g)
                                      (object_entries groups) (class_header_members c)\<rparr>, None))"

definition file_imports :: "string \<Rightarrow> ts_import list" where
  \<comment> \<open>the bridge module, the \<open>id\<close> type, and the parent class when its name is not empty\<close>
  "file_imports super =
     [\<lparr>im_defaultImport = Some ''objc'', im_namedImports = [], im_moduleSpecifier = ''objc''\<rparr>,
      \<lparr>im_defaultImport = None, im_namedImports = [''id''], im_moduleSpecifier = ''../objc.ts''\<rparr>]
     @ (if super \<noteq> [] then
          [\<lparr>im_defaultImport = None, im_namedImports = [super],
            im_moduleSpecifier = ''./'' @ super @ ''.ts''\<rparr>]
        else [])"

definition emit_file :: "ObjCClass \<Rightarrow> ts_file \<times> error option" where
  \<comment> \<open>the source file created in \<open>main\<close> for one class of the extraction\<close>
  "emit_file c =
     (\<lparr>f_path = ''./src/generated/'' @ class_name c @ ''.ts'', f_imports = file_imports (superclass c),
       f_class = fst (emit_class c)\<rparr>, snd (emit_class c))"

definition generated_files :: "ObjCClass list \<Rightarrow> ts_file list" where
  \<comment> \<open>the files of a run over an extraction set none of whose classes ends the run\<close>
  "generated_files classes = map (\<lambda>c. fst (emit_file c)) classes"

section \<open>buildFile, buildClass and buildProperty\<close>

text \<open>
  The second builder takes a class reference that also lists the initializers of the class.
  Two functions it calls are not part of the sources at hand and are parameters here:
  \<open>toTypeScriptType\<close>, the type converter of \<open>buildProperty\<close>, and \<open>buildMethod\<close>, given as
  the members it adds for one method.

  The parameters of an initializer are used twice: they are handed to the code builder as
  the parameters of the constructor, and they are joined with \<open>||\<close> into the test of an
  \<open>if\<close> block. The class reference is untyped, so a parameter may be a string or a
  parameter structure. The code builder raises on a string, which is no structure; a
  structure joins as the text \<open>[object Object]\<close>.
\<close>

datatype init_parameter =
    ParameterText string
  | ParameterStructure ts_parameter

record ClassInit =
  init_parameters :: "init_parameter list"
  init_selector :: string

record ClassRef =
  ref_name :: string
  ref_superclass :: string
  ref_properties :: "ObjCProperty list"
  ref_methods :: "ObjCMethod list"
  ref_inits :: "ClassInit list"

definition buildProperty :: "(string \<Rightarrow> ts_type) \<Rightarrow> ObjCProperty \<Rightarrow> ts_member list" where
  "buildProperty toTypeScriptType property = property_members toTypeScriptType ''newValue'' property"

definition is_structure :: "init_parameter \<Rightarrow> bool" where
  "is_structure p = (case p of ParameterStructure _ \<Rightarrow> True | ParameterText _ \<Rightarrow> False)"

definition structures :: "init_parameter list \<Rightarrow> ts_parameter list" where
  \<comment> \<open>the parameters as the code builder takes them\<close>
  "structures ps = concat (map (\<lambda>p. case p of ParameterStructure t \<Rightarrow> [t] | ParameterText _ \<Rightarrow> []) ps)"

definition join_operand :: "init_parameter \<Rightarrow> string" where
  \<comment> \<open>the text of a parameter inside \<open>parameters.join(' || ')\<close>\<close>
  "join_operand p = (case p of ParameterText t \<Rightarrow> t | ParameterStructure _ \<Rightarrow> ''[object Object]'')"

definition init_block :: "ClassInit \<Rightarrow> ctor_stmt" where
  \<comment> \<open>\<open>if (p1 || p2) { this.pointer = objc.msgSend(memory, selector); }\<close>\<close>
  "init_block i =
     IfBlock (js_join '' || '' (map join_operand (init_parameters i)))
       [''this.pointer = objc.msgSend(memory, '' @ init_selector i @ '');'']"

definition build_constructor :: "string \<Rightarrow> ClassInit list \<Rightarrow> error + ts_member" where
  \<comment> \<open>\<open>inits.at(0).parameters\<close> is read first: without an initializer that is a TypeError.
      Then the constructor and its overloads are added with the parameters of the
      initializers: the builder raises when one of them is a string\<close>
  "build_constructor cname inits =
     (case inits of
        [] \<Rightarrow> Inl (TypeError ''Cannot read properties of undefined (reading parameters)'')
      | i # rest \<Rightarrow>
          if list_all is_structure (concat (map init_parameters inits)) then
            Inr (ConstructorMember \<lparr>co_scope = Public, co_parameters = structures (init_parameters i),
                   co_overloads = map (\<lambda>j. structures (init_parameters j)) rest,
                   co_body =
                     [Line ''super();'',
                      Line (''const memory = objc.msgSend('' @ cname @ ''.Class, '' @ dq @ ''alloc''
                            @ dq @ '')'')]
                     @ map init_block inits\<rparr>)
          else Inl (TypeError ''a constructor parameter is not a parameter structure''))"

definition buildClass ::
  "(string \<Rightarrow> ts_type) \<Rightarrow> (ObjCMethod \<Rightarrow> ts_member list) \<Rightarrow> ClassRef \<Rightarrow> error + ts_class" where
  "buildClass toTypeScriptType buildMethod r =
     (case build_constructor (ref_name r) (ref_inits r) of
        Inl e \<Rightarrow> Inl e
      | Inr ctor \<Rightarrow>
          Inr \<lparr>cl_name = ref_name r, cl_isExported = True,
               cl_extends = (if ref_superclass r \<noteq> [] then Some (ref_superclass r) else None),
               cl_members =
                 [class_reference (ref_name r), pointer_property]
                 @ concat (map (\<lambda>p. if prop_name p = [] then [] else buildProperty toTypeScriptType p)
                               (ref_properties r))
                 @ [ctor]
                 @ concat (map (\<lambda>m. if js_startsWith (method_name m) ''init'' then [] else buildMethod m)
                               (ref_methods r))\<rparr>)"

definition buildFile ::
  "(string \<Rightarrow> ts_type) \<Rightarrow> (ObjCMethod \<Rightarrow> ts_member list) \<Rightarrow> ClassRef \<Rightarrow> error + ts_file" where
  "buildFile toTypeScriptType buildMethod r =
     (case buildClass toTypeScriptType buildMethod r of
        Inl e \<Rightarrow> Inl e
      | Inr cls \<Rightarrow>
          Inr \<lparr>f_path = ''./src/generated/'' @ ref_name r @ ''.ts'',
               f_imports = file_imports (ref_superclass r), f_class = cls\<rparr>)"

section \<open>The reflow pass over the written files\<close>

text \<open>
  The pass of \<open>main\<close> over the text of one generated file. The two patterns are built from
  the base name of a group, which is read as literal text here, as it is for a name made of
  word characters.
\<close>

definition public_prefix :: "bool \<Rightarrow> string \<Rightarrow> string" where
  "public_prefix isStatic baseMethodName =
     ''public '' @ (if isStatic then ''static '' else []) @ baseMethodName"

definition overload_re :: "bool \<Rightarrow> string \<Rightarrow> re" where
  \<comment> \<open>\<open>(\s+)(public [static ]NAME\([^)]*\): [^;]+;)\<close> with the \<open>g\<close> flag\<close>
  "overload_re isStatic baseMethodName =
     seqs [Group 1 spaces1,
           Group 2 (seqs [lits (public_prefix isStatic baseMethodName), Lit CHR ''('',
                          Star (Cls (not_char CHR '')'')), Lit CHR '')'', lits '': '',
                          Plus (Cls (not_char CHR '';'')), Lit CHR '';''])]"

definition implementation_re :: "bool \<Rightarrow> string \<Rightarrow> re" where
  \<comment> \<open>\<open>(\s+)(public [static ]NAME\([^{]*\{)\<close>\<close>
  "implementation_re isStatic baseMethodName =
     seqs [Group 1 spaces1,
           Group 2 (seqs [lits (public_prefix isStatic baseMethodName), Lit CHR ''('',
                          Star (Cls (not_char CHR ''{'')), Lit CHR ''{''])]"

definition reflow_group :: "string \<Rightarrow> string \<times> ObjCMethod list \<Rightarrow> string" where
  \<comment> \<open>one turn of the loop over the groups\<close>
  "reflow_group fileContent g =
     (if length (snd g) \<le> 1 then fileContent
      else
        (let isStatic = js_startsWith (fst g) ''static_'';
             baseMethodName = js_replace (fst g) ''static_'' [];
             overloadMatches = map m_text (js_match_all False (overload_re isStatic baseMethodName) fileContent)
         in case js_match False (implementation_re isStatic baseMethodName) fileContent of
              None \<Rightarrow> fileContent
            | Some im \<Rightarrow>
                (let removed = fold (\<lambda>overload c. js_replace c overload []) overloadMatches fileContent
                 in if length overloadMatches > 0
                    then js_replace removed (m_text im)
                           (js_join ''\<newline>'' overloadMatches @ ''\<newline>'' @ m_text im)
                    else removed)))"

definition missing_method_re :: re where
  \<comment> \<open>\<open>/\/\*\*\s*\n\s*\*\s*@overload\s+(\w+)(?:\([^)]*\)):[^*]*\*\/\s*\n\s*\/\/\s*Add named parameters/g\<close>\<close>
  "missing_method_re =
     seqs [lits ''/**'', spaces, Lit CHR 0x0A, spaces, Lit CHR ''*'', spaces, lits ''@overload'', spaces1,
           Group 1 word1, seqs [Lit CHR ''('', Star (Cls (not_char CHR '')'')), Lit CHR '')''],
           Lit CHR '':'', Star (Cls (not_char CHR ''*'')), lits ''*/'', spaces, Lit CHR 0x0A, spaces,
           lits ''//'', spaces, lits ''Add named parameters'']"

definition missing_declaration :: "bool \<Rightarrow> string \<Rightarrow> string" where
  "missing_declaration isStatic methodName =
     ''\<newline>    public '' @ (if isStatic then ''static '' else []) @ methodName
     @ ''(name?: id, description?: id, value?: number, ...args: any[]): any {\<newline>''"

fun fix_missing :: "nat \<Rightarrow> string \<Rightarrow> nat \<Rightarrow> string option" where
  \<comment> \<open>the \<open>exec\<close> loop: the pattern keeps its \<open>lastIndex\<close> while the text grows. The first
      argument bounds the number of turns; \<open>None\<close> is a loop that has not ended within it\<close>
  "fix_missing 0 fileContent lastIndex = None"
| "fix_missing (Suc fuel) fileContent lastIndex =
     (if lastIndex > length fileContent then Some fileContent
      else
        (case search False missing_method_re (rev (take lastIndex fileContent)) (drop lastIndex fileContent) of
           None \<Rightarrow> Some fileContent
         | Some m \<Rightarrow>
             (let index = length (m_pre m);
                  isStatic = js_includes (js_substring fileContent (index - 50) index) ''static'';
                  commentEndIndex =
                    (case js_indexOf_from index (drop index fileContent) ''*/'' of
                       Some j \<Rightarrow> j + 2
                     | None \<Rightarrow> 1)
              in fix_missing fuel
                   (js_substring fileContent 0 commentEndIndex
                    @ missing_declaration isStatic (cap m 1)
                    @ drop commentEndIndex fileContent)
                   (index + length (m_text m)))))"

definition reflow_pass :: "nat \<Rightarrow> ObjCClass \<Rightarrow> string \<Rightarrow> string option" where
  \<comment> \<open>the text written back for the file of class \<open>c\<close>. When grouping the methods raises,
      the error is caught and the file is left as it was\<close>
  "reflow_pass fuel c fileContent =
     (case group_methods (methods c) of
        Inl e \<Rightarrow> Some fileContent
      | Inr groups \<Rightarrow> fix_missing fuel (fold (\<lambda>g content. reflow_group content g) (object_entries groups) fileContent) 0)"

section \<open>Predicates and example inputs\<close>

definition is_constructor :: "ts_member \<Rightarrow> bool" where
  "is_constructor m = (case m of ConstructorMember _ \<Rightarrow> True | _ \<Rightarrow> False)"

definition simple_parameter :: "string \<Rightarrow> string \<Rightarrow> ObjCParameter" where
  "simple_parameter n t =
     \<lparr>param_name = n, param_type = t, param_isNullable = False, param_documentation = []\<rparr>"

definition instance_method :: "string \<Rightarrow> string \<Rightarrow> ObjCParameter list \<Rightarrow> ObjCMethod" where
  "instance_method ret n ps =
     \<lparr>isClassMethod = False, returnType = ret, method_name = n, parameters = ps,
      method_documentation = [], returnDocumentation = [], method_availability = []\<rparr>"

definition simple_class :: "string \<Rightarrow> string \<Rightarrow> ObjCProperty list \<Rightarrow> ObjCMethod list \<Rightarrow> ObjCClass" where
  "simple_class n super ps mths =
     \<lparr>class_name = n, superclass = super, protocols = [], properties = ps, methods = mths,
      class_documentation = [], class_availability = []\<rparr>"

definition button_class :: ObjCClass where
  \<comment> \<open>\<open>@interface NSButton : NSControl\<close>, extracted alone\<close>
  "button_class = simple_class ''NSButton'' ''NSControl'' [] []"

definition button_ref :: ClassRef where
  \<comment> \<open>a class reference with the one initializer \<open>init\<close>, which takes no parameter\<close>
  "button_ref =
     \<lparr>ref_name = ''NSButton'', ref_superclass = ''NSControl'', ref_properties = [], ref_methods = [],
      ref_inits = [\<lparr>init_parameters = [], init_selector = dq @ ''init'' @ dq\<rparr>]\<rparr>"

definition framed_button_ref :: ClassRef where
  \<comment> \<open>the same class with the initializer \<open>initWithFrame:\<close>, its parameter a structure\<close>
  "framed_button_ref =
     \<lparr>ref_name = ''NSButton'', ref_superclass = ''NSControl'', ref_properties = [], ref_methods = [],
      ref_inits =
        [\<lparr>init_parameters =
            [ParameterStructure \<lparr>tp_name = ''frame'', tp_type = Plain (TsText ''id''),
                                  tp_hasQuestionToken = False, tp_isRestParameter = False\<rparr>],
          init_selector = dq @ ''initWithFrame:'' @ dq\<rparr>]\<rparr>"

definition named_button_ref :: ClassRef where
  \<comment> \<open>the same class with the parameter of the initializer given as a string\<close>
  "named_button_ref =
     \<lparr>ref_name = ''NSButton'', ref_superclass = ''NSControl'', ref_properties = [], ref_methods = [],
      ref_inits = [\<lparr>init_parameters = [ParameterText ''frame''],
                    init_selector = dq @ ''initWithFrame:'' @ dq\<rparr>]\<rparr>"

definition id_converter :: "string \<Rightarrow> ts_type" where
  \<comment> \<open>a stand-in for \<open>toTypeScriptType\<close>\<close>
  "id_converter t = TsText ''id''"

definition no_method_members :: "ObjCMethod \<Rightarrow> ts_member list" where
  \<comment> \<open>a stand-in for \<open>buildMethod\<close>\<close>
  "no_method_members m = []"


definition is_method :: "ts_member \<Rightarrow> bool" where
  "is_method m = (case m of MethodMember _ \<Rightarrow> True | _ \<Rightarrow> False)"

definition sent_selector :: "'v outcome \<Rightarrow> string option" where
  "sent_selector out = (case out of Sends target sel args \<Rightarrow> Some sel | _ \<Rightarrow> None)"

definition groups_from :: "ObjCMethod list \<Rightarrow> (string \<times> ObjCMethod list) list \<Rightarrow> bool" where
  \<comment> \<open>every group is a non-empty list of methods of the class\<close>
  "groups_from mths groups = (\<forall>g \<in> set groups. snd g \<noteq> [] \<and> set (snd g) \<subseteq> set mths)"

definition method_of_signature :: "MethodSignature \<Rightarrow> ObjCMethod" where
  \<comment> \<open>the scanner's \<open>{ ...methodBase, documentation: "", returnDocumentation: "" }\<close>\<close>
  "method_of_signature s =
     \<lparr>isClassMethod = sig_isClassMethod s, returnType = sig_returnType s, method_name = sig_name s,
      parameters = sig_parameters s, method_documentation = [], returnDocumentation = [],
      method_availability = sig_availability s\<rparr>"

definition property_of_info :: "PropertyInfo \<Rightarrow> string \<Rightarrow> ObjCProperty" where
  \<comment> \<open>the scanner's \<open>{ ...propertyInfo, documentation: propertyDoc }\<close>\<close>
  "property_of_info i doc =
     \<lparr>prop_name = pi_name i, prop_type = pi_type i, isReadOnly = pi_isReadOnly i,
      prop_isNullable = pi_isNullable i, prop_documentation = doc, attributes = pi_attributes i\<rparr>"

definition moveTo_x :: ObjCMethod where
  \<comment> \<open>\<open>- (void)moveTo:(CGFloat)x;\<close>\<close>
  "moveTo_x = instance_method ''void'' ''moveTo:'' [simple_parameter ''x'' ''CGFloat'']"

definition moveTo_x_y :: ObjCMethod where
  \<comment> \<open>\<open>- (void)moveTo:(CGFloat)x y:(CGFloat)y;\<close>\<close>
  "moveTo_x_y =
     instance_method ''void'' ''moveTo:y:'' [simple_parameter ''x'' ''CGFloat'', simple_parameter ''y'' ''CGFloat'']"

definition point_class :: ObjCClass where
  "point_class = simple_class ''Point'' ''NSObject'' [] [moveTo_x, moveTo_x_y]"

definition point_dispatch :: dispatch where
  "point_dispatch =
     \<lparr>d_named = [''x'', ''y''], d_target = ''this.pointer'',
      d_branches = [(1, ''moveTo:''), (2, ''moveTo:y:'')], d_base = ''moveTo''\<rparr>"

definition initWithFrame :: ObjCMethod where
  \<comment> \<open>\<open>- (instancetype)initWithFrame:(NSRect)frame;\<close>\<close>
  "initWithFrame = instance_method ''instancetype'' ''initWithFrame:'' [simple_parameter ''frame'' ''NSRect'']"

definition initWithFrame_andFlags :: ObjCMethod where
  \<comment> \<open>\<open>- (instancetype)initWithFrame:(NSRect)frame andFlags:(int)flags;\<close>\<close>
  "initWithFrame_andFlags =
     instance_method ''instancetype'' ''initWithFrame:andFlags:''
       [simple_parameter ''frame'' ''NSRect'', simple_parameter ''flags'' ''int'']"

definition init_frame_class :: ObjCClass where
  "init_frame_class = simple_class ''Canvas'' ''NSObject'' [] [initWithFrame, initWithFrame_andFlags]"

definition viewWithFrame :: ObjCMethod where
  \<comment> \<open>\<open>- (instancetype)viewWithFrame:(NSRect)frame;\<close>\<close>
  "viewWithFrame = instance_method ''instancetype'' ''viewWithFrame:'' [simple_parameter ''frame'' ''NSRect'']"

definition viewWithFrame_andFlags :: ObjCMethod where
  \<comment> \<open>\<open>- (instancetype)viewWithFrame:(NSRect)frame andFlags:(int)flags;\<close>\<close>
  "viewWithFrame_andFlags =
     instance_method ''instancetype'' ''viewWithFrame:andFlags:''
       [simple_parameter ''frame'' ''NSRect'', simple_parameter ''flags'' ''int'']"

definition view_frame_class :: ObjCClass where
  "view_frame_class = simple_class ''Canvas'' ''NSObject'' [] [viewWithFrame, viewWithFrame_andFlags]"

definition view_dispatch :: dispatch where
  "view_dispatch =
     \<lparr>d_named = [''frame'', ''flags''], d_target = ''this.pointer'',
      d_branches = [(1, ''viewWithFrame:''), (2, ''viewWithFrame:andFlags:'')],
      d_base = ''viewWithFrame''\<rparr>"

definition count_property :: ObjCProperty where
  \<comment> \<open>\<open>@property (nonatomic, readonly) NSInteger count;\<close>\<close>
  "count_property =
     \<lparr>prop_name = ''count'', prop_type = ''NSInteger'', isReadOnly = True, prop_isNullable = False,
      prop_documentation = [], attributes = [''nonatomic'', ''readonly'']\<rparr>"

definition setCount :: ObjCMethod where
  \<comment> \<open>\<open>- (void)setCount:(NSInteger)count;\<close>\<close>
  "setCount = instance_method ''void'' ''setCount:'' [simple_parameter ''count'' ''NSInteger'']"

definition counter_class :: ObjCClass where
  \<comment> \<open>a read-only property and a method shaped like its setter\<close>
  "counter_class = simple_class ''Counter'' ''NSObject'' [count_property] [setCount]"

definition readonly_class :: ObjCClass where
  "readonly_class = simple_class ''Counter'' ''NSObject'' [count_property] []"

definition bar_class :: ObjCClass where
  \<comment> \<open>\<open>- (void)bar;\<close> and \<open>- (void)bar:(id)a;\<close>: one group of two\<close>
  "bar_class =
     simple_class ''Foo'' ''NSObject'' []
       [instance_method ''void'' ''bar'' [], instance_method ''void'' ''bar:'' [simple_parameter ''a'' ''id'']]"

definition reflow_input :: string where
  "reflow_input = ''class Foo {\<newline>    public bar() {}\<newline>    public bar(): void;\<newline>}''"

definition reflowed_once :: string where
  "reflowed_once = ''class Foo {\<newline>    public bar(): void;\<newline>\<newline>    public bar() {}\<newline>}''"

definition reflowed_twice :: string where
  "reflowed_twice = ''class Foo {\<newline>\<newline>    public bar() {}\<newline>}''"





section \<open>The imports of a generated file\<close>

lemma file_imports_bridge:
  "\<lparr>im_defaultImport = Some ''objc'', im_namedImports = [], im_moduleSpecifier = ''objc''\<rparr>
     \<in> set (file_imports super)"
  by (simp add: file_imports_def)

lemma file_imports_parent:
  "(\<lparr>im_defaultImport = None, im_namedImports = [super], im_moduleSpecifier = ''./'' @ super @ ''.ts''\<rparr>
      \<in> set (file_imports super)) = (super \<noteq> [])"
  by (auto simp: file_imports_def)

text \<open>
  C9, as the code has it. The file created for a class imports the bridge module \<open>objc\<close>, and
  it imports the parent's module \<open>./<superclass>.ts\<close> exactly when the superclass name of the
  class is not empty; whether the parent is among the extracted classes is not looked at.
  \<open>buildFile\<close> does the same whenever it returns a file.
\<close>

theorem superclass_import_iff_named:
  "\<lparr>im_defaultImport = Some ''objc'', im_namedImports = [], im_moduleSpecifier = ''objc''\<rparr>
     \<in> set (f_imports (fst (emit_file c)))
   \<and> ((\<lparr>im_defaultImport = None, im_namedImports = [superclass c],
         im_moduleSpecifier = ''./'' @ superclass c @ ''.ts''\<rparr>
          \<in> set (f_imports (fst (emit_file c)))) = (superclass c \<noteq> []))
   \<and> (\<forall>f. buildFile t b r = Inr f \<longrightarrow>
         \<lparr>im_defaultImport = Some ''objc'', im_namedImports = [], im_moduleSpecifier = ''objc''\<rparr>
           \<in> set (f_imports f)
         \<and> ((\<lparr>im_defaultImport = None, im_namedImports = [ref_superclass r],
               im_moduleSpecifier = ''./'' @ ref_superclass r @ ''.ts''\<rparr>
                \<in> set (f_imports f)) = (ref_superclass r \<noteq> [])))"
proof -
  have main_part: "f_imports (fst (emit_file c)) = file_imports (superclass c)"
    by (simp add: emit_file_def)
  have build_part: "f_imports f = file_imports (ref_superclass r)" if "buildFile t b r = Inr f" for f
    using that by (auto simp: buildFile_def split: sum.splits)
  show ?thesis
    using file_imports_bridge file_imports_parent main_part build_part by simp
qed

theorem superclass_import_iff_named_witness:
  "(case buildFile id_converter no_method_members button_ref of
      Inl e \<Rightarrow> False
    | Inr f \<Rightarrow>
        \<lparr>im_defaultImport = None, im_namedImports = [''NSControl''],
         im_moduleSpecifier = ''./NSControl.ts''\<rparr> \<in> set (f_imports f))
   \<and> \<lparr>im_defaultImport = None, im_namedImports = [''NSControl''],
       im_moduleSpecifier = ''./NSControl.ts''\<rparr> \<in> set (f_imports (fst (emit_file button_class)))"
  using superclass_import_iff_named [of button_class id_converter no_method_members button_ref]
  by (simp add: buildFile_def buildClass_def build_constructor_def button_ref_def button_class_def
      simple_class_def file_imports_def)

text \<open>
  C9 as stated fails: \<open>NSButton\<close> extracted alone has the superclass \<open>NSControl\<close>, which is
  not in the extraction set, and its file imports \<open>./NSControl.ts\<close> all the same.
\<close>

theorem superclass_import_counterexample:
  "''NSControl'' \<notin> set (map class_name [button_class])
   \<and> \<lparr>im_defaultImport = None, im_namedImports = [''NSControl''],
       im_moduleSpecifier = ''./NSControl.ts''\<rparr>
       \<in> set (f_imports (hd (generated_files [button_class])))"
  by (simp add: generated_files_def emit_file_def file_imports_def button_class_def simple_class_def)

section \<open>The members every generated class has\<close>

lemma emit_group_extends:
  "\<exists>new. emit_group cname members g = members @ new \<and> (\<forall>m \<in> set new. \<not> is_constructor m)"
  by (auto simp: emit_group_def Let_def is_constructor_def overload_signature_def
        overload_implementation_def regular_method_def)

lemma fold_emit_group_extends:
  "\<exists>new. fold (\<lambda>g members. emit_group cname members g) gs members = members @ new
         \<and> (\<forall>m \<in> set new. \<not> is_constructor m)"
proof (induction gs arbitrary: members)
  case Nil
  then show ?case by simp
next
  case (Cons g gs)
  obtain n1 where n1: "emit_group cname members g = members @ n1" "\<forall>m \<in> set n1. \<not> is_constructor m"
    using emit_group_extends by blast
  obtain n2 where n2:
    "fold (\<lambda>g members. emit_group cname members g) gs (members @ n1) = (members @ n1) @ n2"
    "\<forall>m \<in> set n2. \<not> is_constructor m"
    using Cons.IH by blast
  show ?case
    by (rule exI [of _ "n1 @ n2"]) (use n1 n2 in auto)
qed

lemma emit_class_members:
  "\<exists>new. cl_members (fst (emit_class c)) = class_header_members c @ new
         \<and> (\<forall>m \<in> set new. \<not> is_constructor m)"
proof (cases "group_methods (methods c)")
  case (Inl e)
  then show ?thesis by (simp add: emit_class_def)
next
  case (Inr groups)
  then show ?thesis
    using fold_emit_group_extends [of "class_name c" "object_entries groups" "class_header_members c"]
    by (simp add: emit_class_def)
qed









lemma buildClass_of_named_parameter:
  "buildClass id_converter no_method_members named_button_ref =
     Inl (TypeError ''a constructor parameter is not a parameter structure'')"
  by code_simp

lemma buildClass_of_structure_parameter:
  "buildClass id_converter no_method_members framed_button_ref =
     Inr \<lparr>cl_name = ''NSButton'', cl_isExported = True, cl_extends = Some ''NSControl'',
          cl_members =
            [PropertyMember \<lparr>pr_name = ''Class'', pr_type = None,
               pr_initializer = Some (''objc.classes['' @ dq @ ''NSButton'' @ dq @ '']''),
               pr_isStatic = True, pr_isReadonly = True, pr_scope = Private\<rparr>,
             PropertyMember \<lparr>pr_name = ''pointer'', pr_type = Some ''id'', pr_initializer = None,
               pr_isStatic = False, pr_isReadonly = False, pr_scope = Protected\<rparr>,
             ConstructorMember \<lparr>co_scope = Public,
               co_parameters = [\<lparr>tp_name = ''frame'', tp_type = Plain (TsText ''id''),
                                 tp_hasQuestionToken = False, tp_isRestParameter = False\<rparr>],
               co_overloads = [],
               co_body =
                 [Line ''super();'',
                  Line (''const memory = objc.msgSend(NSButton.Class, '' @ dq @ ''alloc'' @ dq @ '')''),
                  IfBlock ''[object Object]''
                    [''this.pointer = objc.msgSend(memory, '' @ dq @ ''initWithFrame:'' @ dq @ '');'']]\<rparr>]\<rparr>"
  by code_simp





section \<open>Documentation comments\<close>


subsection \<open>The matches of a starred character class\<close>














subsection \<open>The patterns of the single-line branch on the two tags\<close>




subsection \<open>Trimming\<close>






subsection \<open>Removing the comment markers\<close>










subsection \<open>The lines of the cleaned comment\<close>





subsection \<open>The two tags with white space around them\<close>

















subsection \<open>Other layouts\<close>

text \<open>
  The block as the header scanner passes it, every line trimmed and the continuation lines
  starting with a star, gives the same result. When the lines keep their indentation, the
  closing delimiter alone on its line after a blank leaves a slash in the main description:
  the pattern for a continuation line removes the blank and the star before the pattern for
  the closing delimiter is tried at the star.
\<close>

lemma doc_block_lines:
  "parseDocumentation ''/*!\<newline>* @param x the x value\<newline>* @return the sum\<newline>*/'' =
     \<lparr>mainDoc = [], paramDocs = [(''x'', ''the x value'')], returnDoc = ''the sum''\<rparr>"
  by code_simp

lemma doc_block_indented:
  "parseDocumentation ''/*!\<newline> * @param x the x value\<newline> * @return the sum\<newline> */'' =
     \<lparr>mainDoc = ''/'', paramDocs = [(''x'', ''the x value'')], returnDoc = ''the sum''\<rparr>"
  by code_simp

text \<open>
  In the loop over the lines a return description is the rest of the line of its tag; a
  line that follows it goes to the main description.
\<close>

lemma return_description_is_one_line:
  "parseDocumentation ''@param x the x value\<newline>@return the\<newline>sum'' =
     \<lparr>mainDoc = ''sum'', paramDocs = [(''x'', ''the x value'')], returnDoc = ''the''\<rparr>"
  by code_simp



lemma doc_block_description_line_then_tags:
  "parseDocumentation
     ''/*!\<newline>* Adds two numbers.\<newline>* @param x the x value @return the sum\<newline>*/'' =
     \<lparr>mainDoc = ''Adds two numbers.'', paramDocs = [(''x'', ''the x value @return the sum'')],
      returnDoc = []\<rparr>"
  by code_simp




section \<open>Selectors and parameter lists\<close>

lemma count_colons_append: "count_colons (a @ b) = count_colons a + count_colons b"
  by (simp add: count_colons_def)

lemma count_colons_concat:
  "\<forall>c \<in> set cs. count_colons c = 1 \<Longrightarrow> count_colons (concat cs) = length cs"
  by (induction cs) (simp_all add: count_colons_append, simp add: count_colons_def)

lemma full_method_name_colons:
  assumes "count_colons baseMethodName = 0" and "\<forall>c \<in> set componentNames. count_colons c = 1"
  shows "count_colons (full_method_name baseMethodName componentNames) = length componentNames"
proof (cases componentNames)
  case Nil
  with assms show ?thesis by (simp add: full_method_name_def)
next
  case (Cons c cs)
  with assms have "count_colons (concat cs) = length cs"
    using count_colons_concat [of cs] by simp
  with Cons assms show ?thesis
    by (simp add: full_method_name_def count_colons_append) (simp add: count_colons_def)
qed

lemma block_parameter_counts:
  "map_sum id (\<lambda>r. (count_colons (sig_name r), length (sig_parameters r)))
     (parseMethodSignature ''- (void)run:(void (^)(void))block;'') = Inr (1, 0)"
  by code_simp

lemma block_parameter_parsed:
  "parseMethodSignature ''- (void)run:(void (^)(void))block;'' =
     Inr \<lparr>sig_isClassMethod = False, sig_returnType = ''void'', sig_name = ''run:'',
          sig_parameters = [], sig_availability = []\<rparr>"
  by code_simp

text \<open>
  C4 at a declaration with a block-typed parameter. The selector has as many colons as
  the text has \<open>label:\<close> tokens (lemma \<open>full_method_name_colons\<close>), and the parameters are
  the matches of \<open>label:(type)name\<close>. The declaration is accepted; the parameter pattern
  does not match a type that contains a closing parenthesis, so no parameter is produced,
  while the label \<open>run:\<close> still gives the selector its colon: one colon, no parameter.
\<close>

theorem block_parameter_gives_colon_without_parameter:
  "parseMethodSignature ''- (void)run:(void (^)(void))block;'' =
     Inr \<lparr>sig_isClassMethod = False, sig_returnType = ''void'', sig_name = ''run:'',
          sig_parameters = [], sig_availability = []\<rparr>
   \<and> map_sum id (\<lambda>r. (count_colons (sig_name r), length (sig_parameters r)))
        (parseMethodSignature ''- (void)run:(void (^)(void))block;'') = Inr (1, 0)"
  using block_parameter_parsed block_parameter_counts
  by simp

lemma plain_declarations_parse:
  "parseMethodSignature ''- (void)foo:(NSObject *)bar;'' =
     Inr \<lparr>sig_isClassMethod = False, sig_returnType = ''void'', sig_name = ''foo:'',
          sig_parameters = [\<lparr>param_name = ''bar'', param_type = ''NSObject'', param_isNullable = False,
                             param_documentation = []\<rparr>],
          sig_availability = []\<rparr>"
  "parseMethodSignature ''+ (instancetype)shared;'' =
     Inr \<lparr>sig_isClassMethod = True, sig_returnType = ''instancetype'', sig_name = ''shared'',
          sig_parameters = [], sig_availability = []\<rparr>"
  by code_simp+

section \<open>Property declarations\<close>

lemma property_without_keyword_fails:
  "parse_property_body ''NSInteger count'' =
     Inl (Error ''Failed to extract basic property declaration from: NSInteger count'')"
  by code_simp

lemma property_without_name_fails:
  "parse_property_body ''@property (readonly) NSRect *'' =
     Inl (Error ''Failed to extract property name from: NSRect *'')"
  by code_simp

lemma property_parses:
  "parse_property_body ''@property (nonatomic, readonly) NSInteger count'' =
     Inr \<lparr>pi_name = ''count'', pi_type = ''NSInteger'', pi_isReadOnly = True, pi_isNullable = False,
          pi_attributes = [''nonatomic'', ''readonly'']\<rparr>"
  by code_simp

text \<open>
  C6. \<open>parsePropertyDeclaration\<close> returns a value for every input string. Either the body
  of its \<open>try\<close> block yields a property, which is returned and nothing is logged; or the body
  throws, and then two warnings are logged (the declaration, and the message of the error)
  and the minimal property is returned: empty name, type \<open>id\<close>, not read-only, not nullable,
  no attributes.
\<close>

theorem property_parser_never_raises:
  "(\<exists>p. parse_property_body (strip_semicolon s) = Inr p \<and> parsePropertyDeclaration s = ([], p))
   \<or> (\<exists>e. parse_property_body (strip_semicolon s) = Inl e
          \<and> parsePropertyDeclaration s =
              ([''Error parsing property declaration: '' @ strip_semicolon s, error_message e],
               \<lparr>pi_name = [], pi_type = ''id'', pi_isReadOnly = False, pi_isNullable = False,
                pi_attributes = []\<rparr>))"
  by (cases "parse_property_body (strip_semicolon s)")
     (simp_all add: parsePropertyDeclaration_def Let_def minimal_property_def)

theorem property_parser_never_raises_witness:
  "parsePropertyDeclaration ''NSInteger count;'' =
     ([''Error parsing property declaration: NSInteger count'',
       ''Failed to extract basic property declaration from: NSInteger count''],
      \<lparr>pi_name = [], pi_type = ''id'', pi_isReadOnly = False, pi_isNullable = False,
       pi_attributes = []\<rparr>)
   \<and> parsePropertyDeclaration ''@property (readonly) NSRect *;'' =
     ([''Error parsing property declaration: @property (readonly) NSRect *'',
       ''Failed to extract property name from: NSRect *''],
      \<lparr>pi_name = [], pi_type = ''id'', pi_isReadOnly = False, pi_isNullable = False,
       pi_attributes = []\<rparr>)
   \<and> parsePropertyDeclaration ''@property (nonatomic, readonly) NSInteger count;'' =
     ([], \<lparr>pi_name = ''count'', pi_type = ''NSInteger'', pi_isReadOnly = True, pi_isNullable = False,
           pi_attributes = [''nonatomic'', ''readonly'']\<rparr>)"
proof -
  have strip1: "strip_semicolon ''NSInteger count;'' = ''NSInteger count''"
    and strip2: "strip_semicolon ''@property (readonly) NSRect *;'' = ''@property (readonly) NSRect *''"
    and strip3: "strip_semicolon ''@property (nonatomic, readonly) NSInteger count;'' =
                   ''@property (nonatomic, readonly) NSInteger count''"
    by code_simp+
  show ?thesis
    using property_parser_never_raises [of "''NSInteger count;''"]
      property_parser_never_raises [of "''@property (readonly) NSRect *;''"]
      property_parser_never_raises [of "''@property (nonatomic, readonly) NSInteger count;''"]
    by (simp add: property_without_keyword_fails property_without_name_fails property_parses
        error_message_def strip1 strip2 strip3)
qed

section \<open>Unrecognized type names\<close>

lemma view_key: "clean_type_key ''NSView'' = ''NSView''"
  by code_simp

lemma view_unrecognized:
  "''NSView'' \<notin> set (map fst class_typeMap)" "''NSView'' \<notin> set object_prototype_keys"
  "''NSView'' \<notin> set (map fst interface_typeMap)" "\<not> has_nullable_marker ''NSView''"
  by code_simp+

text \<open>
  C3, as the code has it. The converter used for classes looks up the name with its
  nullability markers removed, trimmed and without one trailing \<open>*\<close>. For a non-empty name
  whose key has no entry in its table, and is not a name every object inherits, it yields
  \<open>id\<close>, followed by \<open>| null\<close> when the name carries a nullability marker. The converter used
  for interfaces yields such a name itself, followed by \<open>| null\<close> when the nullable flag is
  set.
\<close>

theorem unrecognized_type_fallback:
  "(objcType \<noteq> [] \<and> clean_type_key objcType \<notin> set (map fst class_typeMap)
      \<and> clean_type_key objcType \<notin> set object_prototype_keys
    \<longrightarrow> convertObjCTypeToTypeScriptString objcType
          = TsText (if has_nullable_marker objcType then ''id | null'' else ''id''))
   \<and> (n \<notin> set (map fst interface_typeMap) \<and> n \<notin> set object_prototype_keys
    \<longrightarrow> convertTypeToTypeScript n nullable = TsText (if nullable then n @ '' | null'' else n))"
proof -
  have a: "map_of class_typeMap k = None" if "k \<notin> set (map fst class_typeMap)" for k
    using that by (simp add: map_of_eq_None_iff)
  have b: "map_of interface_typeMap k = None" if "k \<notin> set (map fst interface_typeMap)" for k
    using that by (simp add: map_of_eq_None_iff)
  show ?thesis
    using a b by (auto simp: convertObjCTypeToTypeScriptString_def convertTypeToTypeScript_def Let_def)
qed

theorem unrecognized_type_fallback_witness:
  "''NSView'' \<noteq> [] \<and> clean_type_key ''NSView'' \<notin> set (map fst class_typeMap)
   \<and> clean_type_key ''NSView'' \<notin> set object_prototype_keys
   \<and> convertObjCTypeToTypeScriptString ''NSView'' = TsText ''id''
   \<and> ''NSView'' \<notin> set (map fst interface_typeMap)
   \<and> convertTypeToTypeScript ''NSView'' True = TsText ''NSView | null''"
  using unrecognized_type_fallback [of "''NSView''" "''NSView''" True] view_key view_unrecognized
  by simp

text \<open>
  C3 as stated fails for the converter used for interfaces: \<open>NSView\<close> has no entry in its
  table, and the result is \<open>NSView\<close>, neither \<open>any\<close> (what \<open>id\<close> maps to there) nor \<open>id\<close>.
\<close>

theorem interface_converter_keeps_unrecognized_name:
  "''NSView'' \<notin> set (map fst interface_typeMap)
   \<and> convertTypeToTypeScript ''NSView'' False = TsText ''NSView''
   \<and> convertTypeToTypeScript ''id'' False = TsText ''any''"
  by code_simp


section \<open>Dispatch on the argument count\<close>

lemma unshift_defined_rev: "unshift_defined vals acc = rev (filter (\<lambda>v. v \<noteq> None) vals) @ acc"
  unfolding unshift_defined_def
  by (induction vals arbitrary: acc) auto

lemma collect_args_reversed:
  "collect_args named actuals =
     rev (filter (\<lambda>v. v \<noteq> None) (bind_named named actuals)) @ drop (length named) actuals"
  by (simp add: collect_args_def unshift_defined_rev)

lemma first_arity_selector:
  "first_arity k (map (\<lambda>m. (length (parameters m), methodNameWithColons m)) mths) =
     map_option methodNameWithColons (find (\<lambda>m. length (parameters m) = k) mths)"
  by (induction mths) auto

lemma dispatch_by_first_matching_arity:
  assumes "distinct (map tp_name (implementation_parameters mths))"
    and "set (map tp_name (implementation_parameters mths)) \<inter> set body_identifiers = {}"
  shows "run_dispatch (dispatch_of cname isStatic baseMethodName mths) actuals =
     (case find (\<lambda>m. length (parameters m)
                        = length (collect_args (map tp_name (implementation_parameters mths)) actuals)) mths of
        Some m \<Rightarrow> Sends (method_target cname isStatic) (methodNameWithColons m)
                   (collect_args (map tp_name (implementation_parameters mths)) actuals)
      | None \<Rightarrow> Throws (''Invalid number of arguments for method '' @ baseMethodName))"
  using assms
  by (simp add: run_dispatch_def dispatch_of_def Let_def first_arity_selector split: option.splits)

lemma methodNameWithColons_selector:
  "js_includes (method_name m) '':'' \<or> parameters m = [] \<Longrightarrow> methodNameWithColons m = method_name m"
  by (auto simp: methodNameWithColons_def)

lemma moveTo_extracted:
  "map_sum id method_of_signature (parseMethodSignature ''- (void)moveTo:(CGFloat)x;'') = Inr moveTo_x"
  "map_sum id method_of_signature (parseMethodSignature ''- (void)moveTo:(CGFloat)x y:(CGFloat)y;'')
     = Inr moveTo_x_y"
  by code_simp+

lemma point_groups: "group_methods (methods point_class) = Inr [(''moveTo'', [moveTo_x, moveTo_x_y])]"
  by code_simp

lemma point_dispatch_of: "dispatch_of ''Point'' False ''moveTo'' [moveTo_x, moveTo_x_y] = point_dispatch"
  by code_simp

lemma point_implementation:
  "MethodMember \<lparr>me_name = ''moveTo'', me_scope = Public, me_isStatic = False,
      me_returnType = TsText ''any'',
      me_parameters =
        [\<lparr>tp_name = ''x'', tp_type = Plain (TsText ''number''), tp_hasQuestionToken = True,
          tp_isRestParameter = False\<rparr>,
         \<lparr>tp_name = ''y'', tp_type = Plain (TsText ''number''), tp_hasQuestionToken = True,
          tp_isRestParameter = False\<rparr>,
         \<lparr>tp_name = ''args'', tp_type = Plain (TsText ''any[]''), tp_hasQuestionToken = False,
          tp_isRestParameter = True\<rparr>],
      me_body = Some (render_dispatch point_dispatch)\<rparr>
     \<in> set (cl_members (fst (emit_class point_class)))"
  by code_simp

lemma point_dispatch_text:
  "render_dispatch point_dispatch =
     [''// Determine which method to call based on arguments'',
      ''const allArgs = [...args];'',
      ''// Add named parameters to args array if they exist'',
      ''if (x !== undefined) allArgs.unshift(x);'',
      ''if (y !== undefined) allArgs.unshift(y);'',
      ''if (allArgs.length === 1) {'',
      ''  return objc.msgSend(this.pointer, '' @ dq @ ''moveTo:'' @ dq @ '', ...allArgs);'',
      ''}'',
      ''else if (allArgs.length === 2) {'',
      ''  return objc.msgSend(this.pointer, '' @ dq @ ''moveTo:y:'' @ dq @ '', ...allArgs);'',
      ''}'',
      ''else {'',
      ''  throw new Error('' @ dq @ ''Invalid number of arguments for method moveTo'' @ dq @ '');'',
      ''}'']"
  by code_simp

lemma point_dispatch_valid:
  "distinct (d_named point_dispatch)" "set (d_named point_dispatch) \<inter> set body_identifiers = {}"
  by code_simp+

lemma point_dispatch_two:
  "run_dispatch point_dispatch [Some a, Some b] = Sends ''this.pointer'' ''moveTo:y:'' [Some b, Some a]"
  using point_dispatch_valid
  by (simp add: run_dispatch_def collect_args_def bind_named_def unshift_defined_def
      point_dispatch_def upt_rec)

text \<open>
  C1 at a class with \<open>- (void)moveTo:(CGFloat)x;\<close> and \<open>- (void)moveTo:(CGFloat)x
  y:(CGFloat)y;\<close>. The two methods form one group, and the emitted class holds the
  implementation whose body is the dispatch on the argument count. Called with the
  arguments \<open>a, b\<close>, the body sends \<open>moveTo:y:\<close>, the selector of the member with two
  parameters, but with the arguments \<open>b, a\<close>: each named parameter is put in front of the
  ones collected before it.
\<close>

theorem overload_dispatch_reverses_named_arguments:
  "group_methods (methods point_class) = Inr [(''moveTo'', [moveTo_x, moveTo_x_y])]
   \<and> MethodMember \<lparr>me_name = ''moveTo'', me_scope = Public, me_isStatic = False,
        me_returnType = TsText ''any'',
        me_parameters =
          [\<lparr>tp_name = ''x'', tp_type = Plain (TsText ''number''), tp_hasQuestionToken = True,
            tp_isRestParameter = False\<rparr>,
           \<lparr>tp_name = ''y'', tp_type = Plain (TsText ''number''), tp_hasQuestionToken = True,
            tp_isRestParameter = False\<rparr>,
           \<lparr>tp_name = ''args'', tp_type = Plain (TsText ''any[]''), tp_hasQuestionToken = False,
            tp_isRestParameter = True\<rparr>],
        me_body = Some (render_dispatch (dispatch_of ''Point'' False ''moveTo'' [moveTo_x, moveTo_x_y]))\<rparr>
       \<in> set (cl_members (fst (emit_class point_class)))
   \<and> run_dispatch (dispatch_of ''Point'' False ''moveTo'' [moveTo_x, moveTo_x_y]) [Some a, Some b]
       = Sends ''this.pointer'' ''moveTo:y:'' [Some b, Some a]"
  using point_groups point_implementation point_dispatch_two
  by (simp add: point_dispatch_of)

section \<open>Initializers and overload groups\<close>

lemma frame_methods_extracted:
  "map_sum id method_of_signature (parseMethodSignature ''- (instancetype)initWithFrame:(NSRect)frame;'')
     = Inr initWithFrame"
  "map_sum id method_of_signature
     (parseMethodSignature ''- (instancetype)initWithFrame:(NSRect)frame andFlags:(int)flags;'')
     = Inr initWithFrame_andFlags"
  "map_sum id method_of_signature (parseMethodSignature ''- (instancetype)viewWithFrame:(NSRect)frame;'')
     = Inr viewWithFrame"
  "map_sum id method_of_signature
     (parseMethodSignature ''- (instancetype)viewWithFrame:(NSRect)frame andFlags:(int)flags;'')
     = Inr viewWithFrame_andFlags"
  by code_simp+

lemma init_frame_groups: "group_methods (methods init_frame_class) = Inr []"
  by code_simp

lemma init_frame_no_methods: "filter is_method (cl_members (fst (emit_class init_frame_class))) = []"
  by code_simp

lemma view_frame_groups:
  "group_methods (methods view_frame_class) =
     Inr [(''viewWithFrame'', [viewWithFrame, viewWithFrame_andFlags])]"
  by code_simp

lemma view_dispatch_of:
  "dispatch_of ''Canvas'' False ''viewWithFrame'' [viewWithFrame, viewWithFrame_andFlags] = view_dispatch"
  by code_simp

lemma view_frame_methods:
  "map (\<lambda>m. case m of MethodMember d \<Rightarrow> (me_name d, me_body d) | _ \<Rightarrow> ([], None))
       (filter is_method (cl_members (fst (emit_class view_frame_class)))) =
     [(''viewWithFrame'', None), (''viewWithFrame'', None),
      (''viewWithFrame'', Some (render_dispatch view_dispatch))]"
  by code_simp

lemma view_dispatch_valid:
  "distinct (d_named view_dispatch)" "set (d_named view_dispatch) \<inter> set body_identifiers = {}"
  by code_simp+

lemma view_dispatch_runs:
  "run_dispatch view_dispatch [Some a] = Sends ''this.pointer'' ''viewWithFrame:'' [Some a]"
  "sent_selector (run_dispatch view_dispatch [Some a, Some b]) = Some ''viewWithFrame:andFlags:''"
  "run_dispatch view_dispatch [Some a, Some b, Some c] =
     Throws ''Invalid number of arguments for method viewWithFrame''"
  using view_dispatch_valid
  by (simp_all add: run_dispatch_def collect_args_def bind_named_def unshift_defined_def
      view_dispatch_def upt_rec sent_selector_def)

text \<open>
  C2, as the code has it. The two methods \<open>initWithFrame:\<close> and \<open>initWithFrame:andFlags:\<close>
  are left out of the grouping, their names starting with \<open>init\<close>: the class has no group
  and no method is emitted for them. The same two declarations under a name that does not
  start with \<open>init\<close>, \<open>viewWithFrame:\<close> and \<open>viewWithFrame:andFlags:\<close>, form one group; the
  class holds two signatures and one implementation, whose dispatch sends \<open>viewWithFrame:\<close>
  when called with one argument, \<open>viewWithFrame:andFlags:\<close> with two, and throws the error
  naming \<open>viewWithFrame\<close> with three.
\<close>

theorem overload_group_dispatch_by_count:
  "group_methods (methods init_frame_class) = Inr []
   \<and> filter is_method (cl_members (fst (emit_class init_frame_class))) = []
   \<and> group_methods (methods view_frame_class) =
       Inr [(''viewWithFrame'', [viewWithFrame, viewWithFrame_andFlags])]
   \<and> map (\<lambda>m. case m of MethodMember d \<Rightarrow> (me_name d, me_body d) | _ \<Rightarrow> ([], None))
         (filter is_method (cl_members (fst (emit_class view_frame_class)))) =
       [(''viewWithFrame'', None), (''viewWithFrame'', None),
        (''viewWithFrame'', Some (render_dispatch
           (dispatch_of ''Canvas'' False ''viewWithFrame'' [viewWithFrame, viewWithFrame_andFlags])))]
   \<and> sent_selector (run_dispatch
         (dispatch_of ''Canvas'' False ''viewWithFrame'' [viewWithFrame, viewWithFrame_andFlags])
         [Some a]) = Some ''viewWithFrame:''
   \<and> sent_selector (run_dispatch
         (dispatch_of ''Canvas'' False ''viewWithFrame'' [viewWithFrame, viewWithFrame_andFlags])
         [Some a, Some b]) = Some ''viewWithFrame:andFlags:''
   \<and> run_dispatch
         (dispatch_of ''Canvas'' False ''viewWithFrame'' [viewWithFrame, viewWithFrame_andFlags])
         [Some a, Some b, Some c] = Throws ''Invalid number of arguments for method viewWithFrame''"
  using init_frame_groups init_frame_no_methods view_frame_groups view_frame_methods
    view_dispatch_runs [of a] view_dispatch_runs(2,3) [of a b]
  by (simp add: view_dispatch_of sent_selector_def)

text \<open>
  C2 as stated fails: for the class with \<open>initWithFrame:\<close> and \<open>initWithFrame:andFlags:\<close>
  the generator builds no group, and the emitted class has no method at all, so there is
  no dispatch to call.
\<close>

theorem initializers_are_not_grouped:
  "methods init_frame_class = [initWithFrame, initWithFrame_andFlags]
   \<and> method_name initWithFrame = ''initWithFrame:''
   \<and> method_name initWithFrame_andFlags = ''initWithFrame:andFlags:''
   \<and> group_methods (methods init_frame_class) = Inr []
   \<and> filter is_method (cl_members (fst (emit_class init_frame_class))) = []"
  using init_frame_groups init_frame_no_methods
  by (simp add: init_frame_class_def simple_class_def initWithFrame_def initWithFrame_andFlags_def
      instance_method_def)


section \<open>Read-only properties\<close>

lemma obj_set_set: "set (obj_set kvs k v) \<subseteq> insert (k, v) (set kvs)"
  by (induction kvs) (auto split: if_splits)

lemma add_to_group_from:
  assumes "groups_from mths groups" "m \<in> set mths" "add_to_group (Inr groups) m = Inr groups'"
  shows "groups_from mths groups'"
proof (cases "js_startsWith (method_name m) ''init''")
  case True
  with assms show ?thesis by (simp add: add_to_group_def)
next
  case False
  show ?thesis
  proof (cases "map_of groups (method_key m)")
    case None
    with False assms have "groups' = groups @ [(method_key m, [m])]"
      by (auto simp: add_to_group_def Let_def split: if_splits)
    with assms show ?thesis by (auto simp: groups_from_def)
  next
    case (Some old)
    with False assms have g: "groups' = obj_set groups (method_key m) (old @ [m])"
      by (auto simp: add_to_group_def Let_def)
    from Some have "(method_key m, old) \<in> set groups" by (rule map_of_SomeD)
    with assms have "set old \<subseteq> set mths" by (force simp: groups_from_def)
    show ?thesis
      unfolding groups_from_def
    proof
      fix h assume "h \<in> set groups'"
      with g obj_set_set [of groups "method_key m" "old @ [m]"]
      have "h = (method_key m, old @ [m]) \<or> h \<in> set groups" by auto
      then show "snd h \<noteq> [] \<and> set (snd h) \<subseteq> set mths"
      proof
        assume "h = (method_key m, old @ [m])"
        with \<open>set old \<subseteq> set mths\<close> assms(2) show ?thesis by simp
      next
        assume "h \<in> set groups"
        with assms(1) show ?thesis by (simp add: groups_from_def)
      qed
    qed
  qed
qed

lemma add_to_group_Inl: "add_to_group (Inl e) m = Inl e"
  by (simp add: add_to_group_def)

lemma fold_add_Inl: "fold (\<lambda>m acc. add_to_group acc m) mths (Inl e) = Inl e"
  by (induction mths) (simp_all add: add_to_group_Inl)

lemma fold_add_from:
  assumes "groups_from mths groups" "set ms \<subseteq> set mths"
    "fold (\<lambda>m acc. add_to_group acc m) ms (Inr groups) = Inr groups'"
  shows "groups_from mths groups'"
  using assms
proof (induction ms arbitrary: groups)
  case Nil
  then show ?case by simp
next
  case (Cons m ms)
  show ?case
  proof (cases "add_to_group (Inr groups) m")
    case (Inl e)
    with Cons.prems show ?thesis by (simp add: fold_add_Inl)
  next
    case (Inr g1)
    with Cons.prems have "groups_from mths g1" using add_to_group_from by auto
    with Cons Inr show ?thesis by auto
  qed
qed

lemma group_methods_from: "group_methods mths = Inr groups \<Longrightarrow> groups_from mths groups"
  unfolding group_methods_def
  using fold_add_from [of mths "[]" mths groups] by (simp add: groups_from_def)

lemma set_object_entries: "set (object_entries kvs) = set kvs"
  by (auto simp: object_entries_def)

lemma emit_group_setters:
  assumes "has_set_accessor (emit_group cname members g) n"
  shows "has_set_accessor members n \<or> (isSetterMethod (hd (snd g)) \<and> setter_property_name (hd (snd g)) = n)"
  using assms
  by (auto simp: emit_group_def Let_def has_set_accessor_def overload_signature_def
      overload_implementation_def regular_method_def split: if_splits)

lemma fold_emit_group_setters:
  assumes "has_set_accessor (fold (\<lambda>g members. emit_group cname members g) gs members) n"
  shows "has_set_accessor members n
         \<or> (\<exists>g \<in> set gs. isSetterMethod (hd (snd g)) \<and> setter_property_name (hd (snd g)) = n)"
  using assms
proof (induction gs arbitrary: members)
  case Nil
  then show ?case by simp
next
  case (Cons g gs)
  from Cons.prems have "has_set_accessor (fold (\<lambda>g members. emit_group cname members g) gs (emit_group cname members g)) n"
    by simp
  from Cons.IH [OF this] show ?case
    using emit_group_setters [of cname members g n] by auto
qed

lemma header_setters:
  assumes "has_set_accessor (class_header_members c) n"
  shows "\<exists>q \<in> set (properties c). prop_name q = n \<and> \<not> isReadOnly q"
  using assms
  by (auto simp: class_header_members_def has_set_accessor_def class_reference_def pointer_property_def
      main_constructor_def emit_properties_def property_members_def Let_def split: if_splits)

lemma emit_class_setters:
  assumes "has_set_accessor (cl_members (fst (emit_class c))) n"
  shows "(\<exists>q \<in> set (properties c). prop_name q = n \<and> \<not> isReadOnly q)
         \<or> (\<exists>m \<in> set (methods c). isSetterMethod m \<and> setter_property_name m = n)"
proof (cases "group_methods (methods c)")
  case (Inl e)
  with assms show ?thesis using header_setters by (simp add: emit_class_def)
next
  case (Inr groups)
  then have gf: "groups_from (methods c) groups" by (rule group_methods_from)
  from Inr assms have "has_set_accessor (fold (\<lambda>g members. emit_group (class_name c) members g)
        (object_entries groups) (class_header_members c)) n"
    by (simp add: emit_class_def)
  then consider (h) "has_set_accessor (class_header_members c) n"
    | (g) g where "g \<in> set groups" "isSetterMethod (hd (snd g))" "setter_property_name (hd (snd g)) = n"
    using fold_emit_group_setters [of "class_name c" "object_entries groups" "class_header_members c" n]
    by (auto simp: set_object_entries)
  then show ?thesis
  proof cases
    case h
    then show ?thesis using header_setters by blast
  next
    case g
    from g(1) gf have "snd g \<noteq> []" "set (snd g) \<subseteq> set (methods c)"
      by (simp_all add: groups_from_def)
    then have "hd (snd g) \<in> set (methods c)"
      using hd_in_set by blast
    with g show ?thesis by blast
  qed
qed

lemma readonly_step:
  assumes "isReadOnly p"
  shows "property_members conv v p =
    [GetAccessor \<lparr>ga_name = prop_name p, ga_scope = Public, ga_returnType = conv (prop_type p),
       ga_body = ''return objc.msgSend(this.pointer, '' @ dq @ prop_name p @ dq @ '');''\<rparr>]"
  using assms by (simp add: property_members_def Let_def)

lemma getter_emitted:
  assumes "p \<in> set (properties c)" "prop_name p \<noteq> []"
  shows "GetAccessor \<lparr>ga_name = prop_name p, ga_scope = Public,
       ga_returnType = convertObjCTypeToTypeScriptString (prop_type p),
       ga_body = ''return objc.msgSend(this.pointer, '' @ dq @ prop_name p @ dq @ '');''\<rparr>
     \<in> set (cl_members (fst (emit_class c)))"
proof -
  obtain new where n: "cl_members (fst (emit_class c)) = class_header_members c @ new"
    using emit_class_members by blast
  have "GetAccessor \<lparr>ga_name = prop_name p, ga_scope = Public,
       ga_returnType = convertObjCTypeToTypeScriptString (prop_type p),
       ga_body = ''return objc.msgSend(this.pointer, '' @ dq @ prop_name p @ dq @ '');''\<rparr>
     \<in> set (emit_properties (properties c))"
    using assms by (force simp: emit_properties_def property_members_def Let_def)
  with n show ?thesis by (simp add: class_header_members_def)
qed

lemma step_char_grows:
  "s' \<in> set (step_char P s) \<Longrightarrow> length (fst s') = Suc (length (fst s)) \<and> snd (snd s') = snd (snd s)"
  by (cases "(P, s)" rule: step_char.cases) (auto split: if_splits)

lemma star_iter_char:
  "s' \<in> set (star_iter (step_char P) n s) \<Longrightarrow> length (fst s) \<le> length (fst s') \<and> snd (snd s') = snd (snd s)"
proof (induction n arbitrary: s)
  case 0
  then show ?case by simp
next
  case (Suc n)
  from Suc.prems consider "s' = s"
    | t where "t \<in> set (step_char P s)" "s' \<in> set (star_iter (step_char P) n t)"
    by (auto split: if_splits)
  then show ?case
  proof cases
    case 1
    then show ?thesis by simp
  next
    case 2
    with Suc.IH [of t] step_char_grows [of t P s] show ?thesis by auto
  qed
qed

lemma matches_Cls: "matches ml (Cls P) = step_char P"
  by (rule ext) simp

lemma word1_consumes:
  assumes "s' \<in> set (matches ml word1 s)"
  shows "length (fst s) < length (fst s') \<and> snd (snd s') = snd (snd s)"
proof -
  from assms obtain t where t: "t \<in> set (step_char is_word s)"
    "s' \<in> set (star_iter (step_char is_word) (length (fst (snd t))) t)"
    by (auto simp: word1_def Plus_def matches_Cls)
  from t(1) have g: "length (fst t) = Suc (length (fst s))" "snd (snd t) = snd (snd s)"
    using step_char_grows by blast+
  from t(2) have "length (fst t) \<le> length (fst s')" "snd (snd s') = snd (snd t)"
    using star_iter_char by blast+
  with g show ?thesis by simp
qed

lemma last_word_captures:
  assumes "s' \<in> set (matches ml last_word_re (b, r, []))"
  shows "\<exists>t. snd (snd s') = [(1, t)] \<and> t \<noteq> []"
proof -
  from assms obtain b' r' cs' where w: "(b', r', cs') \<in> set (matches ml word1 (b, r, []))"
    and s': "s' = (b', r', (1, rev (take (length b' - length b) b')) # cs')"
    by (auto simp: last_word_re_def split: if_splits)
  from word1_consumes [OF w] have "length b < length b'" "cs' = []" by simp_all
  with s' show ?thesis by auto
qed

lemma search_from_matches:
  "search ml r b rest = Some m \<Longrightarrow> \<exists>b' rest' s. s \<in> set (matches ml r (b', rest', [])) \<and> m = mk_match b' s"
proof (induction rest arbitrary: b)
  case Nil
  then show ?case by (auto split: list.splits) (metis list.set_intros(1))
next
  case (Cons x xs)
  show ?case
  proof (cases "matches ml r (b, x # xs, [])")
    case Nil
    with Cons show ?thesis by simp
  next
    case (Cons s ss)
    with Cons.prems have "m = mk_match b s" by simp
    moreover from Cons have "s \<in> set (matches ml r (b, x # xs, []))" by simp
    ultimately show ?thesis by blast
  qed
qed

lemma last_word_nonempty:
  assumes "js_match False last_word_re s = Some m"
  shows "cap m 1 \<noteq> []"
proof -
  from assms obtain b' rest' st where st: "st \<in> set (matches False last_word_re (b', rest', []))"
    and m: "m = mk_match b' st"
    unfolding js_match_def using search_from_matches by blast
  from last_word_captures [OF st] obtain t where "snd (snd st) = [(1, t)]" "t \<noteq> []" by blast
  with m show ?thesis by (simp add: cap_def mk_match_def)
qed

lemma parsed_property_has_name:
  assumes "parse_property_body s = Inr p"
  shows "pi_name p \<noteq> []"
  using assms last_word_nonempty
  by (auto simp: parse_property_body_def Let_def split: option.splits)

lemma parsed_readonly_property_has_name:
  assumes "pi_isReadOnly (snd (parsePropertyDeclaration s))"
  shows "pi_name (snd (parsePropertyDeclaration s)) \<noteq> []"
  using assms parsed_property_has_name [of "strip_semicolon s"]
  by (auto simp: parsePropertyDeclaration_def Let_def minimal_property_def split: sum.splits)

lemma counter_class_extracted:
  "property_of_info (snd (parsePropertyDeclaration ''@property (nonatomic, readonly) NSInteger count;'')) []
     = count_property"
  "map_sum id method_of_signature (parseMethodSignature ''- (void)setCount:(NSInteger)count;'')
     = Inr setCount"
  by code_simp+

lemma readonly_class_no_setter: "\<not> has_set_accessor (cl_members (fst (emit_class readonly_class))) ''count''"
  by code_simp

lemma readonly_class_facts:
  "count_property \<in> set (properties readonly_class)" "isReadOnly count_property"
  "prop_name count_property = ''count''" "prop_type count_property = ''NSInteger''"
  "convertObjCTypeToTypeScriptString ''NSInteger'' = TsText ''number''"
  by code_simp+

text \<open>
  C5, as the code has it. For a read-only property with a name (and a property that the
  parser yields as read-only has one, lemma \<open>parsed_readonly_property_has_name\<close>), the step
  that emits the property adds a getter and nothing else, in \<open>main\<close> and in \<open>buildProperty\<close>,
  and the getter is a member of the class built in \<open>main\<close>. A setter accessor of that name
  is in the class only when another property of the same name is not read-only, or when
  the class declares a method shaped like a setter (\<open>setX:\<close> with one parameter) from which
  that name derives.
\<close>

theorem readonly_property_emits_getter_only:
  assumes "p \<in> set (properties c)" and "isReadOnly p" and "prop_name p \<noteq> []"
  shows "property_members convertObjCTypeToTypeScriptString ''value'' p =
           [GetAccessor \<lparr>ga_name = prop_name p, ga_scope = Public,
              ga_returnType = convertObjCTypeToTypeScriptString (prop_type p),
              ga_body = ''return objc.msgSend(this.pointer, '' @ dq @ prop_name p @ dq @ '');''\<rparr>]
         \<and> buildProperty toTypeScriptType p =
           [GetAccessor \<lparr>ga_name = prop_name p, ga_scope = Public,
              ga_returnType = toTypeScriptType (prop_type p),
              ga_body = ''return objc.msgSend(this.pointer, '' @ dq @ prop_name p @ dq @ '');''\<rparr>]
         \<and> GetAccessor \<lparr>ga_name = prop_name p, ga_scope = Public,
              ga_returnType = convertObjCTypeToTypeScriptString (prop_type p),
              ga_body = ''return objc.msgSend(this.pointer, '' @ dq @ prop_name p @ dq @ '');''\<rparr>
             \<in> set (cl_members (fst (emit_class c)))
         \<and> (has_set_accessor (cl_members (fst (emit_class c))) (prop_name p) \<longrightarrow>
               (\<exists>q \<in> set (properties c). prop_name q = prop_name p \<and> \<not> isReadOnly q)
               \<or> (\<exists>m \<in> set (methods c). isSetterMethod m \<and> setter_property_name m = prop_name p))"
  using assms readonly_step [of p] getter_emitted [of p c] emit_class_setters [of c "prop_name p"]
  by (simp add: buildProperty_def)

theorem readonly_property_emits_getter_only_witness:
  "count_property \<in> set (properties readonly_class) \<and> isReadOnly count_property
   \<and> prop_name count_property \<noteq> []
   \<and> property_members convertObjCTypeToTypeScriptString ''value'' count_property =
       [GetAccessor \<lparr>ga_name = ''count'', ga_scope = Public, ga_returnType = TsText ''number'',
          ga_body = ''return objc.msgSend(this.pointer, '' @ dq @ ''count'' @ dq @ '');''\<rparr>]
   \<and> GetAccessor \<lparr>ga_name = ''count'', ga_scope = Public, ga_returnType = TsText ''number'',
          ga_body = ''return objc.msgSend(this.pointer, '' @ dq @ ''count'' @ dq @ '');''\<rparr>
       \<in> set (cl_members (fst (emit_class readonly_class)))
   \<and> \<not> has_set_accessor (cl_members (fst (emit_class readonly_class))) ''count''"
  using readonly_property_emits_getter_only [of count_property readonly_class "\<lambda>t. TsText ''id''"]
    readonly_class_no_setter
  by (simp add: readonly_class_facts)

text \<open>
  C5 as stated fails: a class with the read-only property \<open>count\<close> and the method
  \<open>setCount:\<close> gets a setter accessor \<open>count\<close>, emitted for the method.
\<close>

theorem readonly_property_with_setter_method:
  "count_property \<in> set (properties counter_class) \<and> isReadOnly count_property
   \<and> prop_name count_property = ''count''
   \<and> SetAccessor \<lparr>sa_name = ''count'', sa_scope = Public,
        sa_parameters = [\<lparr>tp_name = ''value'', tp_type = Plain (TsText ''number''),
                          tp_hasQuestionToken = False, tp_isRestParameter = False\<rparr>],
        sa_body = ''objc.msgSend(this.pointer, '' @ dq @ ''setCount:'' @ dq @ '', value);''\<rparr>
       \<in> set (cl_members (fst (emit_class counter_class)))"
  by code_simp

section \<open>Running the reflow pass twice\<close>

lemma bar_groups:
  "group_methods (methods bar_class) =
     Inr [(''bar'', [instance_method ''void'' ''bar'' [],
                     instance_method ''void'' ''bar:'' [simple_parameter ''a'' ''id'']])]"
  by code_simp

lemma bar_first_reflow:
  "fold (\<lambda>g content. reflow_group content g)
        (object_entries [(''bar'', [instance_method ''void'' ''bar'' [],
                                    instance_method ''void'' ''bar:'' [simple_parameter ''a'' ''id'']])])
        reflow_input = reflowed_once"
  by code_simp

lemma bar_second_reflow:
  "fold (\<lambda>g content. reflow_group content g)
        (object_entries [(''bar'', [instance_method ''void'' ''bar'' [],
                                    instance_method ''void'' ''bar:'' [simple_parameter ''a'' ''id'']])])
        reflowed_once = reflowed_twice"
  by code_simp

lemma no_missing_method:
  "search False missing_method_re [] reflowed_once = None"
  "search False missing_method_re [] reflowed_twice = None"
  by code_simp+

lemma reflowed_differ: "reflowed_twice \<noteq> reflowed_once"
  by code_simp

lemma reflow_of_emitted_order:
  "fold (\<lambda>g content. reflow_group content g)
        (object_entries [(''bar'', [instance_method ''void'' ''bar'' [],
                                    instance_method ''void'' ''bar:'' [simple_parameter ''a'' ''id'']])])
        ''class Foo {\<newline>    public bar(): void;\<newline>    public bar(a: id): void;\<newline>    public bar(a?: id, ...args: any[]): any {\<newline>        const allArgs = [...args];\<newline>    }\<newline>}''
     = ''class Foo {\<newline>    }\<newline>}''"
  by code_simp

lemma bar_first_pass: "reflow_pass (Suc fuel) bar_class reflow_input = Some reflowed_once"
  by (simp add: reflow_pass_def bar_groups bar_first_reflow no_missing_method)

lemma bar_second_pass: "reflow_pass (Suc fuel) bar_class reflowed_once = Some reflowed_twice"
  by (simp add: reflow_pass_def bar_groups bar_second_reflow no_missing_method)

text \<open>
  C8 at a file of the class \<open>Foo\<close> with the methods \<open>bar\<close> and \<open>bar:\<close>. (On a text in the
  order the generator emits, signatures first, the pass removes the signatures and the head
  of the implementation with them: lemma \<open>reflow_of_emitted_order\<close>.) The first run moves
  the signature \<open>public bar(): void;\<close> above the implementation \<open>public bar() {}\<close>. Run on
  that output, the pass takes the signature away and puts nothing back: the text found for
  the implementation starts at the signature, which has been removed by then. The second
  output differs from the first.
\<close>

theorem reflow_twice_removes_signature:
  "reflow_pass (Suc fuel) bar_class
     ''class Foo {\<newline>    public bar() {}\<newline>    public bar(): void;\<newline>}''
     = Some ''class Foo {\<newline>    public bar(): void;\<newline>\<newline>    public bar() {}\<newline>}''
   \<and> reflow_pass (Suc fuel) bar_class
       ''class Foo {\<newline>    public bar(): void;\<newline>\<newline>    public bar() {}\<newline>}''
     = Some ''class Foo {\<newline>\<newline>    public bar() {}\<newline>}''
   \<and> ''class Foo {\<newline>\<newline>    public bar() {}\<newline>}''
       \<noteq> ''class Foo {\<newline>    public bar(): void;\<newline>\<newline>    public bar() {}\<newline>}''"
  using bar_first_pass [of fuel] bar_second_pass [of fuel] reflowed_differ
  by (simp add: reflow_input_def reflowed_once_def reflowed_twice_def)


end
